theory Spec2Isabelle
  imports Main
begin

section \<open>Errors\<close>

text \<open>
  \<^verbatim>\<open>utils/errors.ts\<close> declares one class per failure family; every instance carries a
  message, an HTTP status and a machine-readable code. The services below throw
  \<^verbatim>\<open>AuthenticationError\<close> and \<^verbatim>\<open>NotFoundError\<close>, the permission middleware throws
  \<^verbatim>\<open>AuthorizationError\<close>. The remaining constructors are the exceptions of the libraries
  the services call: the two error classes of \<^verbatim>\<open>jsonwebtoken\<close> that the catch blocks
  test for, the request error of the Prisma client, and the \<^verbatim>\<open>TypeError\<close> of the
  JavaScript runtime. Each constructor carries the message.
\<close>

datatype Error =
    AuthenticationError string
  | AuthorizationError string
  | NotFoundError string
  | JsonWebTokenError string
  | TokenExpiredError string
  | PrismaClientKnownRequestError string
  | TypeError string

text \<open>
  \<^verbatim>\<open>statusCode\<close> as set by the constructors of \<^verbatim>\<open>utils/errors.ts\<close>; library errors have
  none, and \<^verbatim>\<open>errorHandler\<close> answers them with 500 and a fixed message.
\<close>

fun statusCode :: "Error \<Rightarrow> nat option" where
  "statusCode (AuthenticationError m) = Some 401"
| "statusCode (AuthorizationError m) = Some 403"
| "statusCode (NotFoundError m) = Some 404"
| "statusCode e = None"

fun message :: "Error \<Rightarrow> string" where
  "message (AuthenticationError m) = m"
| "message (AuthorizationError m) = m"
| "message (NotFoundError m) = m"
| "message (JsonWebTokenError m) = m"
| "message (TokenExpiredError m) = m"
| "message (PrismaClientKnownRequestError m) = m"
| "message (TypeError m) = m"

text \<open>
  \<^verbatim>\<open>errorHandler\<close> (middleware/errorHandler.middleware.ts): the status and the message
  that reach the caller.
\<close>

definition errorHandler :: "Error \<Rightarrow> nat \<times> string" where
  "errorHandler error =
     (case statusCode error of
        Some c \<Rightarrow> (c, message error)
      | None \<Rightarrow> (500, ''Internal server error''))"

text \<open>
  The \<^verbatim>\<open>instanceof\<close> tests of the catch blocks. In \<^verbatim>\<open>jsonwebtoken\<close> the class
  \<^verbatim>\<open>TokenExpiredError\<close> extends \<^verbatim>\<open>JsonWebTokenError\<close>, so an expired-token error is an
  instance of both.
\<close>

fun instanceof_JsonWebTokenError :: "Error \<Rightarrow> bool" where
  "instanceof_JsonWebTokenError (JsonWebTokenError m) = True"
| "instanceof_JsonWebTokenError (TokenExpiredError m) = True"
| "instanceof_JsonWebTokenError e = False"

fun instanceof_TokenExpiredError :: "Error \<Rightarrow> bool" where
  "instanceof_TokenExpiredError (TokenExpiredError m) = True"
| "instanceof_TokenExpiredError e = False"


section \<open>Signed tokens\<close>

text \<open>
  \<^verbatim>\<open>TokenPayload\<close> (types/auth.types.ts). The \<^verbatim>\<open>type\<close> field is a string: a token that
  arrives from outside may carry any value there.
\<close>

record TokenPayload =
  userId :: string
  email :: string
  roles :: "string list"
  permissions :: "string list"
  type :: string

text \<open>
  The claims of a signed token: the payload together with the registered claims that
  \<^verbatim>\<open>jwt.sign\<close> adds. \<^verbatim>\<open>iat\<close> and \<^verbatim>\<open>exp\<close> are in seconds since the epoch.
\<close>

record Claims = TokenPayload +
  iat :: int
  exp :: int
  iss :: string
  aud :: string

text \<open>
  A token string is either the compact serialisation of claims signed with some secret, or
  any other string. The signature is modelled as an ideal MAC: a token verifies under a
  secret exactly when it was signed with that secret.
\<close>

datatype Token =
    Signed Claims string
  | Malformed string

text \<open>
  \<^verbatim>\<open>jwt.sign(payload, secret, {expiresIn, issuer, audience})\<close> at clock reading \<open>now\<close>
  (milliseconds, as \<^verbatim>\<open>Date.now()\<close>); \<open>expiresIn\<close> is the lifetime in seconds.
\<close>

definition jwt_sign :: "TokenPayload \<Rightarrow> string \<Rightarrow> int \<Rightarrow> string \<Rightarrow> string \<Rightarrow> int \<Rightarrow> Token" where
  "jwt_sign tokenPayload secret expiresIn issuer audience now =
     Signed (TokenPayload.extend tokenPayload
               \<lparr>iat = now div 1000, exp = now div 1000 + expiresIn,
                iss = issuer, aud = audience\<rparr>) secret"

text \<open>\<^verbatim>\<open>jwt.decode(token)\<close>: the claims without any check, \<^verbatim>\<open>null\<close> for a malformed string.\<close>

fun jwt_decode :: "Token \<Rightarrow> Claims option" where
  "jwt_decode (Signed c k) = Some c"
| "jwt_decode (Malformed s) = None"

text \<open>
  \<^verbatim>\<open>jwt.verify(token, secret, {issuer, audience})\<close> at clock reading \<open>now\<close>: the checks in
  the order the library makes them (well-formedness, signature, expiry, audience, issuer).
\<close>

fun jwt_verify :: "Token \<Rightarrow> string \<Rightarrow> string \<Rightarrow> string \<Rightarrow> int \<Rightarrow> Error + Claims" where
  "jwt_verify (Malformed s) secret issuer audience now = Inl (JsonWebTokenError ''jwt malformed'')"
| "jwt_verify (Signed c k) secret issuer audience now =
     (if k \<noteq> secret then Inl (JsonWebTokenError ''invalid signature'')
      else if now div 1000 \<ge> exp c then Inl (TokenExpiredError ''jwt expired'')
      else if aud c \<noteq> audience then Inl (JsonWebTokenError ''jwt audience invalid'')
      else if iss c \<noteq> issuer then Inl (JsonWebTokenError ''jwt issuer invalid'')
      else Inr c)"


section \<open>Token service: minting and verifying\<close>

text \<open>
  \<^verbatim>\<open>config.jwt\<close> (config/environment.ts). The two lifetimes are kept in seconds, the
  unit \<^verbatim>\<open>jwt.sign\<close> turns the configured strings into.
\<close>

record Config =
  accessSecret :: string
  refreshSecret :: string
  accessExpiresIn :: int
  refreshExpiresIn :: int

definition generateAccessToken :: "Config \<Rightarrow> int \<Rightarrow> TokenPayload \<Rightarrow> Token" where
  "generateAccessToken config now payload =
     jwt_sign (payload\<lparr>type := ''access''\<rparr>) (accessSecret config) (accessExpiresIn config)
       ''auth-server'' ''auth-client'' now"

definition generateRefreshToken :: "Config \<Rightarrow> int \<Rightarrow> TokenPayload \<Rightarrow> Token" where
  "generateRefreshToken config now payload =
     jwt_sign (payload\<lparr>type := ''refresh''\<rparr>) (refreshSecret config) (refreshExpiresIn config)
       ''auth-server'' ''auth-client'' now"

text \<open>
  The catch block of \<^verbatim>\<open>verifyAccessToken\<close>: the two \<^verbatim>\<open>instanceof\<close> tests in the order of
  the source, and the final rethrow.
\<close>

definition verifyAccessToken_catch :: "Error \<Rightarrow> Error" where
  "verifyAccessToken_catch error =
     (if instanceof_JsonWebTokenError error then AuthenticationError ''Invalid access token''
      else if instanceof_TokenExpiredError error then AuthenticationError ''Access token expired''
      else error)"

definition verifyAccessToken :: "Config \<Rightarrow> int \<Rightarrow> Token \<Rightarrow> Error + Claims" where
  "verifyAccessToken config now token =
     (case jwt_verify token (accessSecret config) ''auth-server'' ''auth-client'' now of
        Inl error \<Rightarrow> Inl (verifyAccessToken_catch error)
      | Inr decoded \<Rightarrow>
          if type decoded \<noteq> ''access''
          then Inl (verifyAccessToken_catch (AuthenticationError ''Invalid token type''))
          else Inr decoded)"

definition verifyRefreshToken_catch :: "Error \<Rightarrow> Error" where
  "verifyRefreshToken_catch error =
     (if instanceof_JsonWebTokenError error then AuthenticationError ''Invalid refresh token''
      else if instanceof_TokenExpiredError error then AuthenticationError ''Refresh token expired''
      else error)"

definition verifyRefreshToken :: "Config \<Rightarrow> int \<Rightarrow> Token \<Rightarrow> Error + Claims" where
  "verifyRefreshToken config now token =
     (case jwt_verify token (refreshSecret config) ''auth-server'' ''auth-client'' now of
        Inl error \<Rightarrow> Inl (verifyRefreshToken_catch error)
      | Inr decoded \<Rightarrow>
          if type decoded \<noteq> ''refresh''
          then Inl (verifyRefreshToken_catch (AuthenticationError ''Invalid token type''))
          else Inr decoded)"


section \<open>The credential store\<close>

text \<open>
  The rows the Prisma client returns. A user is fetched with its roles and their
  permissions included, as every query of the services asks for. \<^verbatim>\<open>password\<close> is the
  stored bcrypt hash, absent for an account created through OAuth; the timestamps are
  milliseconds since the epoch.
\<close>

record Permission =
  name :: string

record Role =
  name :: string
  permissions :: "Permission list"

record User =
  id :: string
  email :: string
  password :: "string option"
  isActive :: bool
  emailVerified :: bool
  lastLoginAt :: "int option"
  roles :: "Role list"
  permissions :: "Permission list"

text \<open>
  Modelled from the spec: the Prisma schema is not among the sources. The specification
  gives a RefreshToken row an opaque signed token string (unique), the owning user, an
  expiry timestamp, a revoked flag that starts false and optional client metadata. The
  unique \<^verbatim>\<open>token\<close> column is the key of the table below, so the row holds the other
  columns.
\<close>

record RefreshToken =
  userId :: string
  expiresAt :: int
  isRevoked :: bool
  userAgent :: "string option"
  ipAddress :: "string option"

text \<open>
  The tables the token lifecycle reads and writes. \<^verbatim>\<open>refreshToken\<close> and
  \<^verbatim>\<open>blacklistedToken\<close> are looked up by their unique token column
  (\<^verbatim>\<open>findUnique({ where: { token } })\<close>), so each is a map from the token; a
  BlacklistedToken row is its \<^verbatim>\<open>expiresAt\<close>. A store operation throws for a reason
  the data determines (a duplicate key on create, a missing row on update). The two store
  operations whose failure the source swallows on the way of a refresh or of an
  authentication, the update in \<^verbatim>\<open>revokeRefreshToken\<close> and the lookup in
  \<^verbatim>\<open>isTokenBlacklisted\<close>, also take a failure of the store itself as an argument below.
\<close>

record Store =
  user :: "User list"
  refreshToken :: "Token \<rightharpoonup> RefreshToken"
  blacklistedToken :: "Token \<rightharpoonup> int"

text \<open>\<^verbatim>\<open>prisma.user.findUnique\<close> by id and by email.\<close>

definition findUserById :: "Store \<Rightarrow> string \<Rightarrow> User option" where
  "findUserById s i = find (\<lambda>u. User.id u = i) (user s)"

definition findUserByEmail :: "Store \<Rightarrow> string \<Rightarrow> User option" where
  "findUserByEmail s e = find (\<lambda>u. User.email u = e) (user s)"

text \<open>\<^verbatim>\<open>prisma.user.update({ where: { id }, data })\<close>, \<open>f\<close> being the change of the row.\<close>

definition updateUser :: "Store \<Rightarrow> string \<Rightarrow> (User \<Rightarrow> User) \<Rightarrow> Store" where
  "updateUser s i f = s\<lparr>user := map (\<lambda>u. if User.id u = i then f u else u) (user s)\<rparr>"


section \<open>Effective permissions\<close>

text \<open>
  \<^verbatim>\<open>[...new Set(xs)]\<close>: a JavaScript \<^verbatim>\<open>Set\<close> keeps its elements in insertion order and
  ignores the insertion of an element it already holds. \<open>newSet acc xs\<close> adds the
  elements of \<open>xs\<close> to the set whose elements so far are \<open>acc\<close>.
\<close>

fun newSet :: "'a list \<Rightarrow> 'a list \<Rightarrow> 'a list" where
  "newSet acc [] = acc"
| "newSet acc (x # xs) = newSet (if x \<in> set acc then acc else acc @ [x]) xs"

text \<open>\<^verbatim>\<open>xs.flatMap(f)\<close>.\<close>

definition flatMap :: "('a \<Rightarrow> 'b list) \<Rightarrow> 'a list \<Rightarrow> 'b list" where
  "flatMap f xs = concat (map f xs)"

text \<open>
  The three lines that \<^verbatim>\<open>login\<close>, \<^verbatim>\<open>refreshTokens\<close> and the permission middleware each
  repeat: the permission names of the roles, then those granted directly, through a Set.
\<close>

definition rolePermissions :: "User \<Rightarrow> string list" where
  "rolePermissions u = flatMap (\<lambda>role. map Permission.name (Role.permissions role)) (User.roles u)"

definition userPermissions :: "User \<Rightarrow> string list" where
  "userPermissions u = map Permission.name (User.permissions u)"

definition allPermissions :: "User \<Rightarrow> string list" where
  "allPermissions u = newSet [] (rolePermissions u @ userPermissions u)"

text \<open>
  The rule as the specification words it, to compare the code with: the effective
  permissions of a user are the union of the permission names of every assigned role and
  of the permission names granted directly to the user, as a set.
\<close>

definition effective_permissions_spec :: "User \<Rightarrow> string set" where
  "effective_permissions_spec u =
     (\<Union>role \<in> set (User.roles u). Permission.name ` set (Role.permissions role))
       \<union> Permission.name ` set (User.permissions u)"


section \<open>Token service: issuing, rotating and revoking\<close>

record JWTTokens =
  accessToken :: Token
  refreshToken :: Token

text \<open>\<^verbatim>\<open>x || null\<close> on an optional string: the empty string is falsy.\<close>

fun orNull :: "string option \<Rightarrow> string option" where
  "orNull None = None"
| "orNull (Some x) = (if x = [] then None else Some x)"

text \<open>
  \<^verbatim>\<open>storeRefreshToken\<close>: the expiry of the row is read from the decoded token. The create
  fails on a token that is already stored (the column is unique); a new row is not
  revoked. The catch block logs and rethrows.
\<close>

definition storeRefreshToken ::
  "Store \<Rightarrow> Token \<Rightarrow> string \<Rightarrow> string option \<Rightarrow> string option \<Rightarrow> (Error + unit) \<times> Store" where
  "storeRefreshToken s token uid ua ip =
     (case jwt_decode token of
        None \<Rightarrow> (Inl (TypeError ''Cannot read properties of null (reading exp)''), s)
      | Some decoded \<Rightarrow>
          (case Store.refreshToken s token of
             Some existing \<Rightarrow>
               (Inl (PrismaClientKnownRequestError ''Unique constraint failed on the fields: (token)''), s)
           | None \<Rightarrow>
               (Inr (),
                s\<lparr>Store.refreshToken := (Store.refreshToken s)(token \<mapsto>
                     \<lparr>userId = uid, expiresAt = exp decoded * 1000, isRevoked = False,
                      userAgent = orNull ua, ipAddress = orNull ip\<rparr>)\<rparr>)))"

text \<open>\<^verbatim>\<open>generateTokenPair\<close>; \<open>now\<close> is the clock reading at which the two tokens are signed.\<close>

definition generateTokenPair ::
  "Config \<Rightarrow> int \<Rightarrow> Store \<Rightarrow> string \<Rightarrow> string \<Rightarrow> string list \<Rightarrow> string list \<Rightarrow>
     string option \<Rightarrow> string option \<Rightarrow> (Error + JWTTokens) \<times> Store" where
  "generateTokenPair config now s uid mail rs ps ua ip =
     (let payload = \<lparr>TokenPayload.userId = uid, email = mail, roles = rs, permissions = ps,
                      type = []\<rparr>;
          access = generateAccessToken config now payload;
          refresh = generateRefreshToken config now payload
      in case storeRefreshToken s refresh uid ua ip of
           (Inl error, s') \<Rightarrow> (Inl error, s')
         | (Inr u, s') \<Rightarrow> (Inr \<lparr>accessToken = access, refreshToken = refresh\<rparr>, s'))"

text \<open>
  \<^verbatim>\<open>revokeRefreshToken\<close>: the update throws when the row is missing, and when the store
  fails (\<open>updateThrows\<close>); the catch block logs whatever was thrown and returns, so in
  either case the store is left as it was and the caller is told nothing.
\<close>

definition revokeRefreshToken :: "bool \<Rightarrow> Store \<Rightarrow> Token \<Rightarrow> Store" where
  "revokeRefreshToken updateThrows s token =
     (if updateThrows then s
      else (case Store.refreshToken s token of
              None \<Rightarrow> s
            | Some row \<Rightarrow>
                s\<lparr>Store.refreshToken := (Store.refreshToken s)(token \<mapsto> row\<lparr>isRevoked := True\<rparr>)\<rparr>))"

text \<open>
  \<^verbatim>\<open>revokeAllUserTokens\<close>: \<^verbatim>\<open>updateMany\<close> over the rows of the user that are not revoked.
  Nothing in the data makes \<^verbatim>\<open>updateMany\<close> throw, so the catch block (log and rethrow) is
  not entered.
\<close>

definition revokeAllUserTokens :: "Store \<Rightarrow> string \<Rightarrow> Store" where
  "revokeAllUserTokens s uid =
     s\<lparr>Store.refreshToken := (\<lambda>t. case Store.refreshToken s t of
                                     None \<Rightarrow> None
                                   | Some row \<Rightarrow>
                                       if userId row = uid \<and> \<not> isRevoked row
                                       then Some (row\<lparr>isRevoked := True\<rparr>)
                                       else Some row)\<rparr>"

text \<open>
  \<^verbatim>\<open>refreshTokens\<close>. The clock is read three times: by \<^verbatim>\<open>jwt.verify\<close> (\<open>tv\<close>), by the
  comparison with the row's \<^verbatim>\<open>expiresAt\<close> (\<open>tc\<close>) and by \<^verbatim>\<open>jwt.sign\<close> (\<open>ts\<close>). The row is
  fetched with its user; a row without one would make \<^verbatim>\<open>storedToken.user.isActive\<close> a
  \<^verbatim>\<open>TypeError\<close>. \<open>revokeThrows\<close> says whether the store fails the update that revokes the
  old row; \<^verbatim>\<open>revokeRefreshToken\<close> swallows that failure, and the new pair is returned all
  the same.
\<close>

definition refreshTokens ::
  "Config \<Rightarrow> bool \<Rightarrow> int \<Rightarrow> int \<Rightarrow> int \<Rightarrow> Store \<Rightarrow> Token \<Rightarrow> (Error + JWTTokens) \<times> Store" where
  "refreshTokens config revokeThrows tv tc ts s token =
     (case verifyRefreshToken config tv token of
        Inl error \<Rightarrow> (Inl error, s)
      | Inr decoded \<Rightarrow>
          (case Store.refreshToken s token of
             None \<Rightarrow> (Inl (AuthenticationError ''Refresh token is invalid or revoked''), s)
           | Some storedToken \<Rightarrow>
               if isRevoked storedToken
               then (Inl (AuthenticationError ''Refresh token is invalid or revoked''), s)
               else if tc > expiresAt storedToken
               then (Inl (AuthenticationError ''Refresh token expired''), s)
               else
                 (case findUserById s (userId storedToken) of
                    None \<Rightarrow> (Inl (TypeError ''Cannot read properties of null (reading isActive)''), s)
                  | Some u \<Rightarrow>
                      if \<not> isActive u
                      then (Inl (AuthenticationError ''User account is disabled''), s)
                      else
                        (case generateTokenPair config ts s (User.id u) (User.email u)
                                (map Role.name (User.roles u)) (allPermissions u)
                                (userAgent storedToken) (ipAddress storedToken) of
                           (Inl error, s') \<Rightarrow> (Inl error, s')
                         | (Inr newTokens, s') \<Rightarrow>
                             (Inr newTokens, revokeRefreshToken revokeThrows s' token)))))"


text \<open>
  \<^verbatim>\<open>blacklistAccessToken\<close>: the token is decoded, not verified; a row is created when the
  decoded token has a (non-zero) \<^verbatim>\<open>exp\<close>. The create fails on a token that is already
  listed, and the catch block logs the error and returns.
\<close>

definition blacklistAccessToken :: "Store \<Rightarrow> Token \<Rightarrow> Store" where
  "blacklistAccessToken s token =
     (case jwt_decode token of
        None \<Rightarrow> s
      | Some decoded \<Rightarrow>
          if exp decoded = 0 then s
          else (case blacklistedToken s token of
                  Some existing \<Rightarrow> s
                | None \<Rightarrow> s\<lparr>blacklistedToken := (blacklistedToken s)(token \<mapsto> exp decoded * 1000)\<rparr>))"

text \<open>
  \<^verbatim>\<open>isTokenBlacklisted\<close> at clock reading \<open>now\<close>. \<open>lookupThrows\<close> says whether the
  \<^verbatim>\<open>findUnique\<close> on the blacklist table throws (the store cannot be reached); the catch
  block then logs the error and returns \<^verbatim>\<open>false\<close>.
\<close>

definition isTokenBlacklisted :: "bool \<Rightarrow> int \<Rightarrow> Store \<Rightarrow> Token \<Rightarrow> bool" where
  "isTokenBlacklisted lookupThrows now s token =
     (if lookupThrows then False
      else (case blacklistedToken s token of
              None \<Rightarrow> False
            | Some blacklistedExpiresAt \<Rightarrow> now < blacklistedExpiresAt))"


section \<open>Authentication service\<close>

text \<open>
  \<^verbatim>\<open>email.toLowerCase()\<close>, on the ASCII letters; every other character is left as it is.
\<close>

definition toLowerCase_char :: "char \<Rightarrow> char" where
  "toLowerCase_char c =
     (case map_of (zip ''ABCDEFGHIJKLMNOPQRSTUVWXYZ'' ''abcdefghijklmnopqrstuvwxyz'') c of
        None \<Rightarrow> c
      | Some l \<Rightarrow> l)"

definition toLowerCase :: "string \<Rightarrow> string" where
  "toLowerCase str = map toLowerCase_char str"

text \<open>
  The two functions of \<^verbatim>\<open>bcrypt\<close> the service calls, taken as they are given:
  \<open>compare password hash\<close> and \<open>hash password\<close> (with the configured number of rounds).
\<close>

record Bcrypt =
  compare :: "string \<Rightarrow> string \<Rightarrow> bool"
  hash :: "string \<Rightarrow> string"

record LoginCredentials =
  email :: string
  password :: string

text \<open>\<^verbatim>\<open>!user.password\<close>: an absent hash and the empty string are both falsy.\<close>

fun truthy :: "string option \<Rightarrow> string option" where
  "truthy None = None"
| "truthy (Some x) = (if x = [] then None else Some x)"

text \<open>
  \<^verbatim>\<open>login\<close>. \<open>tu\<close> is the clock reading stored as \<^verbatim>\<open>lastLoginAt\<close>, \<open>ts\<close> the one at which
  the tokens are signed. The user returned is the row as it was fetched.
\<close>

definition login ::
  "Bcrypt \<Rightarrow> Config \<Rightarrow> int \<Rightarrow> int \<Rightarrow> Store \<Rightarrow> LoginCredentials \<Rightarrow> string option \<Rightarrow> string option \<Rightarrow>
     (Error + User \<times> JWTTokens) \<times> Store" where
  "login bcrypt config tu ts s credentials ua ip =
     (case findUserByEmail s (toLowerCase (LoginCredentials.email credentials)) of
        None \<Rightarrow> (Inl (AuthenticationError ''Invalid email or password''), s)
      | Some u \<Rightarrow>
          (case truthy (User.password u) of
             None \<Rightarrow> (Inl (AuthenticationError ''Invalid email or password''), s)
           | Some hashed \<Rightarrow>
               if \<not> compare bcrypt (LoginCredentials.password credentials) hashed
               then (Inl (AuthenticationError ''Invalid email or password''), s)
               else if \<not> isActive u
               then (Inl (AuthenticationError ''Your account has been disabled''), s)
               else if \<not> emailVerified u
               then (Inl (AuthenticationError ''Please verify your email address before signing in''), s)
               else
                 (let s1 = updateUser s (User.id u) (\<lambda>r. r\<lparr>lastLoginAt := Some tu\<rparr>)
                  in case generateTokenPair config ts s1 (User.id u) (User.email u)
                            (map Role.name (User.roles u)) (allPermissions u) ua ip of
                       (Inl error, s2) \<Rightarrow> (Inl error, s2)
                     | (Inr tokens, s2) \<Rightarrow> (Inr (u, tokens), s2))))"

record ChangePasswordData =
  currentPassword :: string
  newPassword :: string

text \<open>
  \<^verbatim>\<open>changePassword\<close>. The confirmation mail is sent inside a try block whose catch only
  logs, so it changes neither the result nor the store.
\<close>

definition changePassword ::
  "Bcrypt \<Rightarrow> Store \<Rightarrow> string \<Rightarrow> ChangePasswordData \<Rightarrow> (Error + unit) \<times> Store" where
  "changePassword bcrypt s uid data =
     (case findUserById s uid of
        None \<Rightarrow> (Inl (NotFoundError ''User not found''), s)
      | Some u \<Rightarrow>
          (case truthy (User.password u) of
             None \<Rightarrow> (Inl (NotFoundError ''User not found''), s)
           | Some hashed \<Rightarrow>
               if \<not> compare bcrypt (currentPassword data) hashed
               then (Inl (AuthenticationError ''Current password is incorrect''), s)
               else
                 (let hashedPassword = hash bcrypt (newPassword data);
                      s1 = updateUser s uid (\<lambda>r. r\<lparr>User.password := Some hashedPassword\<rparr>)
                  in (Inr (), revokeAllUserTokens s1 uid))))"


section \<open>Middleware\<close>

text \<open>
  The \<^verbatim>\<open>Authorization\<close> header of a request: \<^verbatim>\<open>Bearer\<close>, a space and a token string, or
  any other value.
\<close>

datatype Authorization =
    Bearer Token
  | Other string

text \<open>
  \<^verbatim>\<open>authHeader && authHeader.startsWith('Bearer ') ? authHeader.slice(7) : null\<close>,
  followed by the test \<^verbatim>\<open>!token\<close>, which the empty string passes as well.
\<close>

fun bearerToken :: "Authorization option \<Rightarrow> Token option" where
  "bearerToken None = None"
| "bearerToken (Some (Other v)) = None"
| "bearerToken (Some (Bearer t)) = (if t = Malformed [] then None else Some t)"

text \<open>
  \<^verbatim>\<open>authenticate\<close>: the user attached to the request, or the error handed to \<^verbatim>\<open>next\<close>.
  \<open>tb\<close> is the clock reading of the blacklist check, \<open>tv\<close> the one of \<^verbatim>\<open>jwt.verify\<close>.
\<close>

definition authenticate ::
  "bool \<Rightarrow> Config \<Rightarrow> int \<Rightarrow> int \<Rightarrow> Store \<Rightarrow> Authorization option \<Rightarrow> Error + User" where
  "authenticate lookupThrows config tb tv s authHeader =
     (case bearerToken authHeader of
        None \<Rightarrow> Inl (AuthenticationError ''Access token required'')
      | Some token \<Rightarrow>
          if isTokenBlacklisted lookupThrows tb s token
          then Inl (AuthenticationError ''Token is invalid'')
          else
            (case verifyAccessToken config tv token of
               Inl error \<Rightarrow> Inl error
             | Inr payload \<Rightarrow>
                 (case findUserById s (TokenPayload.userId payload) of
                    None \<Rightarrow> Inl (AuthenticationError ''User not found'')
                  | Some u \<Rightarrow>
                      if \<not> isActive u
                      then Inl (AuthenticationError ''User account is disabled'')
                      else Inr u)))"

text \<open>\<^verbatim>\<open>xs.join(', ')\<close>.\<close>

fun join :: "string list \<Rightarrow> string" where
  "join [] = []"
| "join [x] = x"
| "join (x # y # ys) = x @ '', '' @ join (y # ys)"

text \<open>
  \<^verbatim>\<open>hasPermission(...requiredPermissions)\<close> applied to the user of the request:
  \<open>Inr ()\<close> stands for the call \<^verbatim>\<open>next()\<close>, \<open>Inl e\<close> for \<^verbatim>\<open>next(e)\<close>.
\<close>

definition hasPermission :: "string list \<Rightarrow> User option \<Rightarrow> Error + unit" where
  "hasPermission requiredPermissions reqUser =
     (case reqUser of
        None \<Rightarrow> Inl (AuthenticationError ''User not authenticated'')
      | Some u \<Rightarrow>
          if list_ex (\<lambda>permission. permission \<in> set (allPermissions u)) requiredPermissions
          then Inr ()
          else Inl (AuthorizationError
                      (''Access denied. Required permissions: '' @ join requiredPermissions)))"



section \<open>Requests in sequence\<close>

text \<open>
  \<^verbatim>\<open>logout\<close>: the access token is blacklisted, then the refresh token revoked; neither
  step throws. \<open>revokeThrows\<close> is handed to \<^verbatim>\<open>revokeRefreshToken\<close>.
\<close>

definition logout :: "bool \<Rightarrow> Store \<Rightarrow> Token \<Rightarrow> Token \<Rightarrow> Store" where
  "logout revokeThrows s access refresh =
     revokeRefreshToken revokeThrows (blacklistAccessToken s access) refresh"

text \<open>
  \<^verbatim>\<open>logoutAll\<close>: \<^verbatim>\<open>updateMany\<close> over the rows of the user that are not revoked, except,
  when a current refresh token is given (and is not the empty string), the row of that
  token.
\<close>

definition logoutAll :: "Store \<Rightarrow> string \<Rightarrow> Token option \<Rightarrow> Store" where
  "logoutAll s uid currentRefreshToken =
     s\<lparr>Store.refreshToken := (\<lambda>t. case Store.refreshToken s t of
                                     None \<Rightarrow> None
                                   | Some row \<Rightarrow>
                                       if userId row = uid \<and> \<not> isRevoked row
                                          \<and> (case currentRefreshToken of
                                                None \<Rightarrow> True
                                              | Some current \<Rightarrow>
                                                  current = Malformed [] \<or> t \<noteq> current)
                                       then Some (row\<lparr>isRevoked := True\<rparr>)
                                       else Some row)\<rparr>"

text \<open>
  The requests that write to the store, each with its arguments, the clock readings it
  makes and, where it revokes a single refresh token, whether the store fails that update;
  and the store a sequence of them leaves.
\<close>

datatype Request =
    Login LoginCredentials "string option" "string option" int int
  | Refresh Token bool int int int
  | Logout Token Token bool
  | LogoutAll string "Token option"
  | ChangePassword string ChangePasswordData

fun handle :: "Bcrypt \<Rightarrow> Config \<Rightarrow> Request \<Rightarrow> Store \<Rightarrow> Store" where
  "handle bcrypt config (Login credentials ua ip tu ts) s =
     snd (login bcrypt config tu ts s credentials ua ip)"
| "handle bcrypt config (Refresh token revokeThrows tv tc ts) s =
     snd (refreshTokens config revokeThrows tv tc ts s token)"
| "handle bcrypt config (Logout access refresh revokeThrows) s =
     logout revokeThrows s access refresh"
| "handle bcrypt config (LogoutAll uid current) s = logoutAll s uid current"
| "handle bcrypt config (ChangePassword uid data) s = snd (changePassword bcrypt s uid data)"

fun serve :: "Bcrypt \<Rightarrow> Config \<Rightarrow> Request list \<Rightarrow> Store \<Rightarrow> Store" where
  "serve bcrypt config [] s = s"
| "serve bcrypt config (request # requests) s =
     serve bcrypt config requests (handle bcrypt config request s)"

text \<open>A token is revoked in a store when it has a row there and the row is revoked.\<close>

definition revoked :: "Store \<Rightarrow> Token \<Rightarrow> bool" where
  "revoked s token =
     (case Store.refreshToken s token of None \<Rightarrow> False | Some row \<Rightarrow> isRevoked row)"


section \<open>Two calls in flight\<close>

text \<open>
  \<^verbatim>\<open>refreshTokens\<close> is an \<^verbatim>\<open>async\<close> function: it gives up control at each \<^verbatim>\<open>await\<close> of a
  store operation, and another request may run in between. A call in flight is at one of
  these points: it has been made; its \<^verbatim>\<open>findUnique\<close> has delivered the row (with the user
  included) or \<^verbatim>\<open>null\<close>; its \<^verbatim>\<open>create\<close> of the new row has completed; it has returned or
  thrown.
\<close>

datatype RefreshCall =
    Called
  | Found "RefreshToken option" "User option"
  | Created JWTTokens
  | Returned "Error + JWTTokens"

text \<open>
  One step of a call: the code from one of these points through the next store operation,
  which the store carries out at once. \<open>now\<close> is the clock reading of the step and
  \<open>updateThrows\<close> says whether the store fails an update the step makes. The first step
  verifies the token and looks the row up; the second makes the three checks on the row it
  was given, mints the pair and creates the new row; the third revokes the old row, or
  swallows the failure of that update, and returns the pair.
\<close>

fun refreshTokens_step ::
  "Config \<Rightarrow> int \<Rightarrow> bool \<Rightarrow> Token \<Rightarrow> RefreshCall \<Rightarrow> Store \<Rightarrow> RefreshCall \<times> Store" where
  "refreshTokens_step config now updateThrows token Called s =
     (case verifyRefreshToken config now token of
        Inl error \<Rightarrow> (Returned (Inl error), s)
      | Inr decoded \<Rightarrow>
          (Found (Store.refreshToken s token)
                 (case Store.refreshToken s token of
                    None \<Rightarrow> None
                  | Some storedToken \<Rightarrow> findUserById s (userId storedToken)), s))"
| "refreshTokens_step config now updateThrows token (Found None included) s =
     (Returned (Inl (AuthenticationError ''Refresh token is invalid or revoked'')), s)"
| "refreshTokens_step config now updateThrows token (Found (Some storedToken) included) s =
     (if isRevoked storedToken
      then (Returned (Inl (AuthenticationError ''Refresh token is invalid or revoked'')), s)
      else if now > expiresAt storedToken
      then (Returned (Inl (AuthenticationError ''Refresh token expired'')), s)
      else
        (case included of
           None \<Rightarrow> (Returned (Inl (TypeError ''Cannot read properties of null (reading isActive)'')), s)
         | Some u \<Rightarrow>
             if \<not> isActive u
             then (Returned (Inl (AuthenticationError ''User account is disabled'')), s)
             else
               (case generateTokenPair config now s (User.id u) (User.email u)
                       (map Role.name (User.roles u)) (allPermissions u)
                       (userAgent storedToken) (ipAddress storedToken) of
                  (Inl error, s') \<Rightarrow> (Returned (Inl error), s')
                | (Inr newTokens, s') \<Rightarrow> (Created newTokens, s'))))"
| "refreshTokens_step config now updateThrows token (Created newTokens) s =
     (Returned (Inr newTokens), revokeRefreshToken updateThrows s token)"
| "refreshTokens_step config now updateThrows token (Returned result) s = (Returned result, s)"

text \<open>
  Two calls \<open>A\<close> and \<open>B\<close> on the same token over one store. A schedule says whose step
  runs next, what the clock reads then, and whether the store fails an update of that step.
\<close>

datatype Turn = A int bool | B int bool

fun race ::
  "Config \<Rightarrow> Token \<Rightarrow> Turn list \<Rightarrow> RefreshCall \<times> RefreshCall \<times> Store \<Rightarrow>
     RefreshCall \<times> RefreshCall \<times> Store" where
  "race config token [] state = state"
| "race config token (A now updateThrows # turns) (a, b, s) =
     (case refreshTokens_step config now updateThrows token a s of
        (a', s') \<Rightarrow> race config token turns (a', b, s'))"
| "race config token (B now updateThrows # turns) (a, b, s) =
     (case refreshTokens_step config now updateThrows token b s of
        (b', s') \<Rightarrow> race config token turns (a, b', s'))"

text \<open>A call has succeeded when it has returned a pair.\<close>

fun succeeded :: "RefreshCall \<Rightarrow> bool" where
  "succeeded (Returned (Inr newTokens)) = True"
| "succeeded call = False"


section \<open>Sample data\<close>

text \<open>
  A configuration, a user and a store on which the theorems below are run. The user has
  one role with two permissions and one direct grant that the role gives as well.
\<close>

definition config0 :: Config where
  "config0 = \<lparr>accessSecret = ''access-secret-0123456789-0123456789'',
              refreshSecret = ''refresh-secret-0123456789-0123456789'',
              accessExpiresIn = 900, refreshExpiresIn = 604800\<rparr>"

definition bcrypt0 :: Bcrypt where
  "bcrypt0 = \<lparr>compare = (\<lambda>password hashed. hashed = ''$2b$12$'' @ password),
              hash = (\<lambda>password. ''$2b$12$'' @ password)\<rparr>"

definition editor :: Role where
  "editor = \<lparr>Role.name = ''editor'',
             permissions = [\<lparr>Permission.name = ''posts:read''\<rparr>, \<lparr>Permission.name = ''posts:write''\<rparr>]\<rparr>"

definition alice :: User where
  "alice = \<lparr>User.id = ''u1'', email = ''alice@example.com'', password = Some ''$2b$12$wonderland'',
            isActive = True, emailVerified = True, lastLoginAt = None,
            roles = [editor],
            permissions = [\<lparr>Permission.name = ''posts:write''\<rparr>, \<lparr>Permission.name = ''users:read''\<rparr>]\<rparr>"

definition alicePayload :: TokenPayload where
  "alicePayload = \<lparr>TokenPayload.userId = ''u1'', email = ''alice@example.com'',
                   roles = [''editor''],
                   permissions = [''posts:read'', ''posts:write'', ''users:read''], type = []\<rparr>"

definition aliceRefresh :: Token where
  "aliceRefresh = generateRefreshToken config0 0 alicePayload"

definition aliceAccess :: Token where
  "aliceAccess = generateAccessToken config0 0 alicePayload"

definition aliceRow :: RefreshToken where
  "aliceRow = \<lparr>userId = ''u1'', expiresAt = 604800000, isRevoked = False,
               userAgent = Some ''curl'', ipAddress = None\<rparr>"

definition store0 :: Store where
  "store0 = \<lparr>user = [alice], refreshToken = Map.empty, blacklistedToken = Map.empty\<rparr>"

definition store1 :: Store where
  "store1 = \<lparr>user = [alice], refreshToken = [aliceRefresh \<mapsto> aliceRow],
             blacklistedToken = Map.empty\<rparr>"

text \<open>
  A second user, created through OAuth and so without a password hash, and a store in
  which the first user is disabled and unverified.
\<close>

definition bob :: User where
  "bob = \<lparr>User.id = ''u2'', email = ''bob@example.com'', password = None,
          isActive = True, emailVerified = True, lastLoginAt = None,
          roles = [], permissions = []\<rparr>"

definition store2 :: Store where
  "store2 = \<lparr>user = [alice\<lparr>isActive := False, emailVerified := False\<rparr>, bob],
             refreshToken = Map.empty, blacklistedToken = Map.empty\<rparr>"



section \<open>Verification of tokens\<close>

lemmas sample_defs = config0_def bcrypt0_def editor_def alice_def alicePayload_def aliceRefresh_def
  aliceAccess_def aliceRow_def store0_def store1_def bob_def store2_def

lemmas token_defs = generateTokenPair_def storeRefreshToken_def generateRefreshToken_def
  generateAccessToken_def jwt_sign_def verifyRefreshToken_def verifyRefreshToken_catch_def
  verifyAccessToken_def verifyAccessToken_catch_def TokenPayload.defs Claims.defs

text \<open>
  What a successful verification says about the token: it was signed with the secret of its
  kind, has not expired on the clock of the verification, and carries the fixed audience and
  issuer and the type of its kind.
\<close>

lemma verifyAccessToken_InrD:
  assumes "verifyAccessToken config tv token = Inr decoded"
  shows "token = Signed decoded (accessSecret config) \<and> tv div 1000 < exp decoded
           \<and> aud decoded = ''auth-client'' \<and> iss decoded = ''auth-server''
           \<and> type decoded = ''access''"
  using assms
  by (cases token)
     (auto simp: verifyAccessToken_def verifyAccessToken_catch_def split: if_splits)

lemma verifyRefreshToken_InrD:
  assumes "verifyRefreshToken config tv token = Inr decoded"
  shows "token = Signed decoded (refreshSecret config) \<and> tv div 1000 < exp decoded
           \<and> aud decoded = ''auth-client'' \<and> iss decoded = ''auth-server''
           \<and> type decoded = ''refresh''"
  using assms
  by (cases token)
     (auto simp: verifyRefreshToken_def verifyRefreshToken_catch_def split: if_splits)

text \<open>
  A refresh token that verified once verifies at every other clock reading before its
  expiry, and is reported with the message of the first catch branch from then on.
\<close>

lemma verifyRefreshToken_later:
  assumes "verifyRefreshToken config tv token = Inr decoded"
  shows "verifyRefreshToken config tv' token =
           (if exp decoded \<le> tv' div 1000 then Inl (AuthenticationError ''Invalid refresh token'')
            else Inr decoded)"
  using verifyRefreshToken_InrD [OF assms]
  by (auto simp: verifyRefreshToken_def verifyRefreshToken_catch_def)

text \<open>
  The second branch of either catch block is never taken: no input makes the verification
  answer with its message.
\<close>

lemma verifyAccessToken_never_expired_message:
  "verifyAccessToken config now token \<noteq> Inl (AuthenticationError ''Access token expired'')"
  by (cases token)
     (auto simp: verifyAccessToken_def verifyAccessToken_catch_def)

lemma verifyRefreshToken_never_expired_message:
  "verifyRefreshToken config now token \<noteq> Inl (AuthenticationError ''Refresh token expired'')"
  by (cases token)
     (auto simp: verifyRefreshToken_def verifyRefreshToken_catch_def)

text \<open>
  The part of the claim about invalid tokens holds: a malformed string, a signature made
  with another secret, a wrong audience and a wrong issuer are all answered with the same
  error, and a wrong type claim on an otherwise valid token with the type error.
\<close>

lemma verifyAccessToken_bad_token:
  "verifyAccessToken config now (Malformed str) = Inl (AuthenticationError ''Invalid access token'')"
  "k \<noteq> accessSecret config \<or> aud c \<noteq> ''auth-client'' \<or> iss c \<noteq> ''auth-server'' \<Longrightarrow>
     verifyAccessToken config now (Signed c k) = Inl (AuthenticationError ''Invalid access token'')"
  "now div 1000 < exp c \<Longrightarrow> aud c = ''auth-client'' \<Longrightarrow> iss c = ''auth-server'' \<Longrightarrow>
     type c \<noteq> ''access'' \<Longrightarrow>
     verifyAccessToken config now (Signed c (accessSecret config))
       = Inl (AuthenticationError ''Invalid token type'')"
  by (auto simp: verifyAccessToken_def verifyAccessToken_catch_def)

lemma verifyRefreshToken_bad_token:
  "verifyRefreshToken config now (Malformed str) = Inl (AuthenticationError ''Invalid refresh token'')"
  "k \<noteq> refreshSecret config \<or> aud c \<noteq> ''auth-client'' \<or> iss c \<noteq> ''auth-server'' \<Longrightarrow>
     verifyRefreshToken config now (Signed c k) = Inl (AuthenticationError ''Invalid refresh token'')"
  "now div 1000 < exp c \<Longrightarrow> aud c = ''auth-client'' \<Longrightarrow> iss c = ''auth-server'' \<Longrightarrow>
     type c \<noteq> ''refresh'' \<Longrightarrow>
     verifyRefreshToken config now (Signed c (refreshSecret config))
       = Inl (AuthenticationError ''Invalid token type'')"
  by (auto simp: verifyRefreshToken_def verifyRefreshToken_catch_def)

text \<open>What the caller of the HTTP interface sees of an authentication error.\<close>

lemma errorHandler_AuthenticationError: "errorHandler (AuthenticationError m) = (401, m)"
  by (simp add: errorHandler_def)

text \<open>
  Claim C4. The verification of an access token (and likewise of a refresh token) should
  answer a well-signed token whose expiry has passed with an error of its own, distinct
  from the error for a bad signature. On the sample access token, signed at time 0 with a
  lifetime of 900 seconds, the verification succeeds one millisecond before the expiry;
  at the expiry it fails with the message \<^verbatim>\<open>Invalid access token\<close>, the very error that the
  same claims signed with another secret produce. The sample refresh token at its expiry
  fails with \<^verbatim>\<open>Invalid refresh token\<close> in the same way.
\<close>

theorem expired_token_reported_as_invalid:
  "isl (verifyAccessToken config0 899999 aliceAccess) = False
   \<and> verifyAccessToken config0 900000 aliceAccess
       = Inl (AuthenticationError ''Invalid access token'')
   \<and> verifyAccessToken config0 0 (Signed (the (jwt_decode aliceAccess)) ''another secret'')
       = Inl (AuthenticationError ''Invalid access token'')
   \<and> isl (verifyRefreshToken config0 604799999 aliceRefresh) = False
   \<and> verifyRefreshToken config0 604800000 aliceRefresh
       = Inl (AuthenticationError ''Invalid refresh token'')
   \<and> verifyRefreshToken config0 0 (Signed (the (jwt_decode aliceRefresh)) ''another secret'')
       = Inl (AuthenticationError ''Invalid refresh token'')"
  by (simp add: sample_defs token_defs)

text \<open>
  Claim C6. Cross-type rejection: for every configuration, payload and pair of clock
  readings, the access verification fails on a token minted as a refresh token, and the
  refresh verification fails on a token minted as an access token. Where the two secrets
  differ (or the token has expired) the failure is the one for a bad token; where the two
  secrets coincide, the type claim that minting wrote into the token is what rejects it.
\<close>

theorem cross_type_rejection:
  "verifyAccessToken config now' (generateRefreshToken config now payload) =
     Inl (AuthenticationError
            (if refreshSecret config \<noteq> accessSecret config
                \<or> now div 1000 + refreshExpiresIn config \<le> now' div 1000
             then ''Invalid access token'' else ''Invalid token type''))
   \<and> verifyRefreshToken config now' (generateAccessToken config now payload) =
     Inl (AuthenticationError
            (if accessSecret config \<noteq> refreshSecret config
                \<or> now div 1000 + accessExpiresIn config \<le> now' div 1000
             then ''Invalid refresh token'' else ''Invalid token type''))"
  by (simp add: token_defs)

theorem cross_type_rejection_witness:
  "verifyAccessToken config0 1000 aliceRefresh = Inl (AuthenticationError ''Invalid access token'')
   \<and> verifyRefreshToken config0 1000 aliceAccess = Inl (AuthenticationError ''Invalid refresh token'')
   \<and> verifyAccessToken (config0\<lparr>refreshSecret := accessSecret config0\<rparr>) 1000
        (generateRefreshToken (config0\<lparr>refreshSecret := accessSecret config0\<rparr>) 0 alicePayload)
       = Inl (AuthenticationError ''Invalid token type'')
   \<and> verifyRefreshToken (config0\<lparr>refreshSecret := accessSecret config0\<rparr>) 1000
        (generateAccessToken (config0\<lparr>refreshSecret := accessSecret config0\<rparr>) 0 alicePayload)
       = Inl (AuthenticationError ''Invalid token type'')"
  using cross_type_rejection [of config0 1000 0 alicePayload]
    cross_type_rejection [of "config0\<lparr>refreshSecret := accessSecret config0\<rparr>" 1000 0 alicePayload]
  by (simp add: config0_def aliceRefresh_def aliceAccess_def)


section \<open>Rotation of refresh tokens\<close>

text \<open>What a successful \<^verbatim>\<open>generateTokenPair\<close> returned and stored.\<close>

lemma generateTokenPair_InrD:
  assumes "generateTokenPair config now s uid mail rs ps ua ip = (Inr tokens, s')"
  shows "Store.refreshToken s (JWTTokens.refreshToken tokens) = None
       \<and> JWTTokens.refreshToken tokens = generateRefreshToken config now
            \<lparr>TokenPayload.userId = uid, TokenPayload.email = mail, TokenPayload.roles = rs,
             TokenPayload.permissions = ps, type = []\<rparr>
       \<and> JWTTokens.accessToken tokens = generateAccessToken config now
            \<lparr>TokenPayload.userId = uid, TokenPayload.email = mail, TokenPayload.roles = rs,
             TokenPayload.permissions = ps, type = []\<rparr>
       \<and> s' = s\<lparr>Store.refreshToken := (Store.refreshToken s)(JWTTokens.refreshToken tokens \<mapsto>
                 \<lparr>userId = uid, expiresAt = (now div 1000 + refreshExpiresIn config) * 1000,
                  isRevoked = False, userAgent = orNull ua, ipAddress = orNull ip\<rparr>)\<rparr>"
  using assms
  by (auto simp: generateTokenPair_def storeRefreshToken_def Let_def generateRefreshToken_def
        jwt_sign_def TokenPayload.defs Claims.defs split: option.splits)

text \<open>
  The sample refresh token is redeemed one second after it was issued; the call returns a
  pair whether or not the store fails the update that revokes the old row.
\<close>

lemma refreshTokens_store1:
  "\<exists>newTokens s'.
     refreshTokens config0 revokeThrows 1000 1000 1000 store1 aliceRefresh = (Inr newTokens, s')"
  by (simp add: refreshTokens_def sample_defs token_defs findUserById_def Let_def
        allPermissions_def rolePermissions_def userPermissions_def flatMap_def)

text \<open>
  Revocation is permanent: no request takes a revoked row away or clears its flag.
\<close>

lemma revoked_generateTokenPair:
  "revoked s token \<Longrightarrow> revoked (snd (generateTokenPair config now s uid mail rs ps ua ip)) token"
  by (auto simp: revoked_def generateTokenPair_def storeRefreshToken_def Let_def
        split: option.splits)

lemma revoked_revokeRefreshToken:
  "revoked s token \<Longrightarrow> revoked (revokeRefreshToken updateThrows s t) token"
  by (auto simp: revoked_def revokeRefreshToken_def split: option.splits)

lemma revoked_revokeAllUserTokens:
  "revoked s token \<Longrightarrow> revoked (revokeAllUserTokens s uid) token"
  by (auto simp: revoked_def revokeAllUserTokens_def split: option.splits)

lemma revoked_updateUser: "revoked (updateUser s i f) token = revoked s token"
  by (simp add: revoked_def updateUser_def)

lemma revoked_blacklistAccessToken: "revoked (blacklistAccessToken s t) token = revoked s token"
  by (simp add: revoked_def blacklistAccessToken_def split: option.splits)

lemma revoked_refreshTokens:
  "revoked s token \<Longrightarrow> revoked (snd (refreshTokens config revokeThrows tv tc ts s t)) token"
proof -
  assume r: "revoked s token"
  have "revoked (snd (generateTokenPair config ts s uid mail rs ps ua ip)) token"
    for uid mail rs ps ua ip
    using r by (rule revoked_generateTokenPair)
  then have "generateTokenPair config ts s uid mail rs ps ua ip = (x, s') \<Longrightarrow> revoked s' token"
    for uid mail rs ps ua ip x s'
    by (metis snd_conv)
  with r show ?thesis
    by (auto simp: refreshTokens_def revoked_revokeRefreshToken
          split: sum.splits option.splits prod.splits)
qed

lemma revoked_login:
  "revoked s token \<Longrightarrow> revoked (snd (login bcrypt config tu ts s credentials ua ip)) token"
proof -
  assume r: "revoked s token"
  have "revoked (snd (generateTokenPair config ts (updateUser s i f) uid mail rs ps ua ip)) token"
    for i f uid mail rs ps
    using r by (simp add: revoked_generateTokenPair revoked_updateUser)
  then have "generateTokenPair config ts (updateUser s i f) uid mail rs ps ua ip = (x, s')
               \<Longrightarrow> revoked s' token"
    for i f uid mail rs ps x s'
    by (metis snd_conv)
  with r show ?thesis
    by (auto simp: login_def Let_def split: sum.splits option.splits prod.splits)
qed

lemma revoked_changePassword:
  "revoked s token \<Longrightarrow> revoked (snd (changePassword bcrypt s uid data)) token"
  by (auto simp: changePassword_def Let_def revoked_revokeAllUserTokens revoked_updateUser
        split: option.splits)

lemma revoked_logout:
  "revoked s token \<Longrightarrow> revoked (logout revokeThrows s access refresh) token"
  by (simp add: logout_def revoked_revokeRefreshToken revoked_blacklistAccessToken)

lemma revoked_logoutAll: "revoked s token \<Longrightarrow> revoked (logoutAll s uid current) token"
  by (auto simp: revoked_def logoutAll_def split: option.splits)

lemma revoked_handle: "revoked s token \<Longrightarrow> revoked (handle bcrypt config request s) token"
  by (cases request)
     (simp_all add: revoked_login revoked_refreshTokens revoked_logout revoked_logoutAll
        revoked_changePassword)

lemma revoked_serve: "revoked s token \<Longrightarrow> revoked (serve bcrypt config requests s) token"
  by (induction requests arbitrary: s) (simp_all add: revoked_handle)

text \<open>
  On a revoked token \<^verbatim>\<open>refreshTokens\<close> fails and leaves the store as it is: with the error
  of the verification when that fails, as invalid or revoked otherwise.
\<close>

lemma refreshTokens_revoked:
  "revoked s token \<Longrightarrow>
   refreshTokens config revokeThrows tv tc ts s token =
     (Inl (case verifyRefreshToken config tv token of
             Inl error \<Rightarrow> error
           | Inr decoded \<Rightarrow> AuthenticationError ''Refresh token is invalid or revoked''), s)"
  by (auto simp: refreshTokens_def revoked_def split: sum.splits option.splits)

lemma refreshTokens_on_revoked:
  assumes "revoked s token" and "verifyRefreshToken config tv token = Inr decoded"
  shows "refreshTokens config revokeThrows' tv' tc' ts' s token =
           (Inl (AuthenticationError
                  (if exp decoded \<le> tv' div 1000 then ''Invalid refresh token''
                   else ''Refresh token is invalid or revoked'')), s)"
  by (simp add: refreshTokens_revoked [OF assms(1)] verifyRefreshToken_later [OF assms(2)])

text \<open>
  A successful \<^verbatim>\<open>refreshTokens\<close> was given a token that verifies and has a row; it leaves
  that row as it was when the store failed the revoking update, and revoked otherwise.
\<close>

lemma refreshTokens_success:
  assumes "refreshTokens config revokeThrows tv tc ts s token = (Inr newTokens, s')"
  shows "\<exists>claims row. jwt_decode token = Some claims
           \<and> verifyRefreshToken config tv token = Inr claims
           \<and> Store.refreshToken s token = Some row \<and> \<not> isRevoked row
           \<and> Store.refreshToken s' token = Some (row\<lparr>isRevoked := \<not> revokeThrows\<rparr>)"
proof -
  from assms obtain decoded where v: "verifyRefreshToken config tv token = Inr decoded"
    by (auto simp: refreshTokens_def split: sum.splits)
  from assms v obtain storedToken where r: "Store.refreshToken s token = Some storedToken"
    and n: "\<not> isRevoked storedToken"
    by (auto simp: refreshTokens_def split: option.splits if_splits)
  from assms v r obtain u s1 where
    g: "generateTokenPair config ts s (User.id u) (User.email u) (map Role.name (User.roles u))
          (allPermissions u) (userAgent storedToken) (ipAddress storedToken) = (Inr newTokens, s1)"
    and s': "s' = revokeRefreshToken revokeThrows s1 token"
    by (auto simp: refreshTokens_def split: option.splits if_splits sum.splits prod.splits)
  from generateTokenPair_InrD [OF g] r
  have s1: "Store.refreshToken s1 token = Some storedToken"
    by auto
  from n have "Store.refreshToken s' token = Some (storedToken\<lparr>isRevoked := \<not> revokeThrows\<rparr>)"
    by (simp add: s' revokeRefreshToken_def s1)
  moreover from verifyRefreshToken_InrD [OF v] have "jwt_decode token = Some decoded" by auto
  ultimately show ?thesis using v r n by simp
qed

lemma refreshTokens_success_revokes:
  assumes "refreshTokens config False tv tc ts s token = (Inr newTokens, s')"
  shows "\<exists>claims. jwt_decode token = Some claims
           \<and> verifyRefreshToken config tv token = Inr claims \<and> revoked s' token"
  using refreshTokens_success [OF assms] by (auto simp: revoked_def)

text \<open>
  Claim C1, as stated: a successful \<^verbatim>\<open>refreshTokens\<close> on a token revokes the row of the
  token, so that the next call on it fails. On the sample store the store fails the update
  that revokes the old row: \<^verbatim>\<open>revokeRefreshToken\<close> swallows the error, the call returns
  its pair, the row of the token is still not revoked, and the next call on the same token,
  a second later and with the store working, returns a pair again.
\<close>

theorem swallowed_revoke_allows_second_refresh:
  "isl (fst (refreshTokens config0 True 1000 1000 1000 store1 aliceRefresh)) = False
   \<and> map_option isRevoked
        (Store.refreshToken (snd (refreshTokens config0 True 1000 1000 1000 store1 aliceRefresh))
           aliceRefresh) = Some False
   \<and> isl (fst (refreshTokens config0 False 2000 2000 2000
                 (snd (refreshTokens config0 True 1000 1000 1000 store1 aliceRefresh))
                 aliceRefresh)) = False"
  by (simp add: refreshTokens_def revokeRefreshToken_def sample_defs token_defs findUserById_def
        Let_def allPermissions_def rolePermissions_def userPermissions_def flatMap_def)

text \<open>
  Claim C1, amended. Rotation is one-shot when the revoking update goes through: when
  \<^verbatim>\<open>refreshTokens\<close> succeeds on a token and the store does not fail the update that revokes
  the old row, the token is revoked in the store the call leaves, and every later
  \<^verbatim>\<open>refreshTokens\<close> on the same token, directly afterwards or after any sequence of logins,
  refreshes, logouts and password changes, at any clock readings and whatever the store
  does to later updates, fails and leaves the store as it is. The failure is the one for an
  invalid or revoked refresh token, or, once the expiry of the token itself has passed, the
  one for an invalid refresh token; no pair is issued again.
\<close>

theorem rotation_one_shot:
  assumes "refreshTokens config False tv tc ts s token = (Inr newTokens, s')"
  shows "\<exists>claims. jwt_decode token = Some claims \<and> revoked s' token
           \<and> refreshTokens config revokeThrows' tv' tc' ts' (serve bcrypt config requests s') token =
               (Inl (AuthenticationError
                      (if exp claims \<le> tv' div 1000 then ''Invalid refresh token''
                       else ''Refresh token is invalid or revoked'')),
                serve bcrypt config requests s')"
proof -
  from refreshTokens_success_revokes [OF assms] obtain claims where
    c: "jwt_decode token = Some claims" "verifyRefreshToken config tv token = Inr claims"
    and r: "revoked s' token"
    by blast
  from r have "revoked (serve bcrypt config requests s') token" by (rule revoked_serve)
  from refreshTokens_on_revoked [OF this c(2)] c(1) r show ?thesis by simp
qed

text \<open>
  The sample token is redeemed, the store working, and presented again: at once, and after
  a login, a logout from all sessions and one more attempt to redeem it.
\<close>

theorem rotation_one_shot_witness:
  "isl (fst (refreshTokens config0 False 1000 1000 1000 store1 aliceRefresh)) = False
   \<and> fst (refreshTokens config0 False 2000 2000 2000
            (snd (refreshTokens config0 False 1000 1000 1000 store1 aliceRefresh)) aliceRefresh)
       = Inl (AuthenticationError ''Refresh token is invalid or revoked'')
   \<and> fst (refreshTokens config0 False 9000 9000 9000
            (serve bcrypt0 config0
               [Login \<lparr>LoginCredentials.email = ''alice@example.com'', password = ''wonderland''\<rparr>
                  None None 3000 3000,
                LogoutAll ''u1'' None,
                Refresh aliceRefresh True 5000 5000 5000]
               (snd (refreshTokens config0 False 1000 1000 1000 store1 aliceRefresh))) aliceRefresh)
       = Inl (AuthenticationError ''Refresh token is invalid or revoked'')"
proof -
  obtain newTokens s' where
    h: "refreshTokens config0 False 1000 1000 1000 store1 aliceRefresh = (Inr newTokens, s')"
    using refreshTokens_store1 by blast
  have e: "jwt_decode aliceRefresh = Some claims \<Longrightarrow> exp claims = 604800" for claims
    by (auto simp: sample_defs token_defs)
  from rotation_one_shot [OF h, where revokeThrows' = False and tv' = 2000 and tc' = 2000
      and ts' = 2000 and bcrypt = bcrypt0 and requests = "[]"]
    rotation_one_shot [OF h, where revokeThrows' = False and tv' = 9000 and tc' = 9000
      and ts' = 9000 and bcrypt = bcrypt0 and requests =
      "[Login \<lparr>LoginCredentials.email = ''alice@example.com'', password = ''wonderland''\<rparr>
                  None None 3000 3000,
        LogoutAll ''u1'' None,
        Refresh aliceRefresh True 5000 5000 5000]"] e
  show ?thesis
    unfolding h by (auto simp del: serve.simps simp add: serve.simps(1))
qed

text \<open>
  Claim C3. Once the signature verification of the token has passed, \<^verbatim>\<open>refreshTokens\<close> makes
  three checks in this order. A token without a row, or with a revoked row, fails as
  invalid or revoked, whatever the expiry of the row and the state of the user. A row that
  is not revoked and whose \<^verbatim>\<open>expiresAt\<close> lies before the clock reading fails as expired,
  whatever the state of the user. A row that passes both checks and whose user is not
  active fails with the disabled-account error. None of the three changes the store.
\<close>

theorem refreshTokens_failure_order:
  assumes "verifyRefreshToken config tv token = Inr decoded"
  shows "(Store.refreshToken s token = None
            \<or> (\<exists>row. Store.refreshToken s token = Some row \<and> isRevoked row)
          \<longrightarrow> refreshTokens config revokeThrows tv tc ts s token =
                (Inl (AuthenticationError ''Refresh token is invalid or revoked''), s))
       \<and> ((\<exists>row. Store.refreshToken s token = Some row \<and> \<not> isRevoked row \<and> expiresAt row < tc)
          \<longrightarrow> refreshTokens config revokeThrows tv tc ts s token =
                (Inl (AuthenticationError ''Refresh token expired''), s))
       \<and> ((\<exists>row u. Store.refreshToken s token = Some row \<and> \<not> isRevoked row
                  \<and> tc \<le> expiresAt row
                  \<and> findUserById s (userId row) = Some u \<and> \<not> isActive u)
          \<longrightarrow> refreshTokens config revokeThrows tv tc ts s token =
                (Inl (AuthenticationError ''User account is disabled''), s))"
  using assms by (auto simp: refreshTokens_def)

text \<open>
  The sample token is verified one millisecond before its expiry and checked against four
  stores: without a row; with a row that is revoked and, two milliseconds later, past its
  expiry, of a user who is disabled; with a row that is only past its expiry and of a
  disabled user; with a valid row of a disabled user.
\<close>

theorem refreshTokens_failure_order_witness:
  "refreshTokens config0 False 604799999 604800001 604800001 store0 aliceRefresh =
     (Inl (AuthenticationError ''Refresh token is invalid or revoked''), store0)
   \<and> fst (refreshTokens config0 False 604799999 604800001 604800001
            \<lparr>user = [alice\<lparr>isActive := False\<rparr>],
             refreshToken = [aliceRefresh \<mapsto> aliceRow\<lparr>isRevoked := True\<rparr>],
             blacklistedToken = Map.empty\<rparr> aliceRefresh) =
       Inl (AuthenticationError ''Refresh token is invalid or revoked'')
   \<and> fst (refreshTokens config0 False 604799999 604800001 604800001
            \<lparr>user = [alice\<lparr>isActive := False\<rparr>],
             refreshToken = [aliceRefresh \<mapsto> aliceRow],
             blacklistedToken = Map.empty\<rparr> aliceRefresh) =
       Inl (AuthenticationError ''Refresh token expired'')
   \<and> fst (refreshTokens config0 False 604799999 604799999 604799999
            \<lparr>user = [alice\<lparr>isActive := False\<rparr>],
             refreshToken = [aliceRefresh \<mapsto> aliceRow],
             blacklistedToken = Map.empty\<rparr> aliceRefresh) =
       Inl (AuthenticationError ''User account is disabled'')"
proof -
  have v: "verifyRefreshToken config0 604799999 aliceRefresh
             = Inr (the (jwt_decode aliceRefresh))"
    by (simp add: sample_defs token_defs)
  show ?thesis
    using refreshTokens_failure_order [OF v, of store0 False 604800001 604800001]
      refreshTokens_failure_order [OF v,
        of "\<lparr>user = [alice\<lparr>isActive := False\<rparr>],
             refreshToken = [aliceRefresh \<mapsto> aliceRow\<lparr>isRevoked := True\<rparr>],
             blacklistedToken = Map.empty\<rparr>" False 604800001 604800001]
      refreshTokens_failure_order [OF v,
        of "\<lparr>user = [alice\<lparr>isActive := False\<rparr>],
             refreshToken = [aliceRefresh \<mapsto> aliceRow],
             blacklistedToken = Map.empty\<rparr>" False 604800001 604800001]
      refreshTokens_failure_order [OF v,
        of "\<lparr>user = [alice\<lparr>isActive := False\<rparr>],
             refreshToken = [aliceRefresh \<mapsto> aliceRow],
             blacklistedToken = Map.empty\<rparr>" False 604799999 604799999]
    by (simp add: store0_def aliceRow_def alice_def findUserById_def)
qed


section \<open>Concurrent redemption\<close>

text \<open>
  Three steps of one call, run without another call in between, are \<^verbatim>\<open>refreshTokens\<close>
  (with one clock reading for the checks and the minting); of what the store does to
  updates, only the third step, the revoking one, takes notice.
\<close>

lemma refreshTokens_step_refines:
  "(case refreshTokens_step config tv fa token Called s of (c1, s1) \<Rightarrow>
      case refreshTokens_step config tc fb token c1 s1 of (c2, s2) \<Rightarrow>
        refreshTokens_step config tr fc token c2 s2)
   = (case refreshTokens config fc tv tc tc s token of (result, s') \<Rightarrow> (Returned result, s'))"
  by (auto simp: refreshTokens_def split: sum.splits option.splits prod.splits)

text \<open>A schedule in which call \<open>A\<close> returns before call \<open>B\<close> starts is two calls in a row.\<close>

lemma race_sequential:
  "race config token [A tv fa, A tc fb, A tr fc, B tv' ga, B tc' gb, B tr' gc] (Called, Called, s) =
     (case refreshTokens config fc tv tc tc s token of (ra, sa) \<Rightarrow>
        case refreshTokens config gc tv' tc' tc' sa token of (rb, sb) \<Rightarrow>
          (Returned ra, Returned rb, sb))"
proof -
  obtain ra sa where a: "refreshTokens config fc tv tc tc s token = (ra, sa)"
    by (cases "refreshTokens config fc tv tc tc s token")
  obtain rb sb where b: "refreshTokens config gc tv' tc' tc' sa token = (rb, sb)"
    by (cases "refreshTokens config gc tv' tc' tc' sa token")
  have 1: "race config token [A tv fa, A tc fb, A tr fc] (Called, x, s) = (Returned ra, x, sa)"
    for x
    using refreshTokens_step_refines [where config = config and tv = tv and tc = tc and tr = tr
        and fa = fa and fb = fb and fc = fc and s = s and token = token]
    by (simp add: a split: prod.splits)
  have 2: "race config token [B tv' ga, B tc' gb, B tr' gc] (x, Called, sa) = (x, Returned rb, sb)"
    for x
    using refreshTokens_step_refines [where config = config and tv = tv' and tc = tc' and tr = tr'
        and fa = ga and fb = gb and fc = gc and s = sa and token = token]
    by (simp add: b split: prod.splits)
  have "race config token [A tv fa, A tc fb, A tr fc, B tv' ga, B tc' gb, B tr' gc]
          (Called, Called, s)
        = race config token [B tv' ga, B tc' gb, B tr' gc]
            (race config token [A tv fa, A tc fb, A tr fc] (Called, Called, s))"
    by (simp split: prod.splits)
  then show ?thesis by (simp only: 1 2 a b prod.case)
qed

text \<open>
  Claim C2, as stated: of two calls that race on the same token at most one succeeds. On
  the sample store, with the store failing no update, both calls look the row up before
  either revokes it, the second mints its pair one second after the first, and both return
  a pair.
\<close>

theorem concurrent_refresh_both_succeed:
  "succeeded (fst (race config0 aliceRefresh
                     [A 1000 False, B 1000 False, A 1000 False, B 2000 False, A 2000 False,
                      B 2000 False]
                     (Called, Called, store1)))
   \<and> succeeded (fst (snd (race config0 aliceRefresh
                             [A 1000 False, B 1000 False, A 1000 False, B 2000 False,
                              A 2000 False, B 2000 False]
                             (Called, Called, store1))))"
  by (simp add: sample_defs token_defs findUserById_def Let_def
        revokeRefreshToken_def allPermissions_def rolePermissions_def userPermissions_def
        flatMap_def)

text \<open>
  Claim C2, amended: when one call has returned a pair before the other call starts, and
  the store did not fail the update by which the first call revokes the old row, the other
  call fails: it finds the row revoked and fails as invalid or revoked (or, once the expiry
  of the token itself has passed, as an invalid refresh token).
\<close>

theorem sequential_refresh_second_fails:
  assumes "race config token [A tv fa, A tc fb, A tr False, B tv' ga, B tc' gb, B tr' gc]
             (Called, Called, s) = (a, b, s')"
    and "succeeded a"
  shows "\<exists>claims. jwt_decode token = Some claims
           \<and> b = Returned (Inl (AuthenticationError
                  (if exp claims \<le> tv' div 1000 then ''Invalid refresh token''
                   else ''Refresh token is invalid or revoked'')))"
proof -
  obtain ra sa where ra: "refreshTokens config False tv tc tc s token = (ra, sa)"
    by (cases "refreshTokens config False tv tc tc s token")
  obtain rb sb where rb: "refreshTokens config gc tv' tc' tc' sa token = (rb, sb)"
    by (cases "refreshTokens config gc tv' tc' tc' sa token")
  from assms(1) [unfolded race_sequential] have ab: "a = Returned ra" "b = Returned rb"
    by (simp_all add: ra rb)
  from assms(2) ab obtain newTokens where "ra = Inr newTokens"
    by (cases ra) auto
  with ra have "refreshTokens config False tv tc tc s token = (Inr newTokens, sa)" by simp
  from refreshTokens_success_revokes [OF this] obtain claims where
    c: "jwt_decode token = Some claims" "verifyRefreshToken config tv token = Inr claims"
    and r: "revoked sa token"
    by blast
  from refreshTokens_on_revoked [OF r c(2), of gc tv' tc' tc'] rb ab c(1)
  show ?thesis by auto
qed

theorem sequential_refresh_second_fails_witness:
  "succeeded (fst (race config0 aliceRefresh
                     [A 1000 False, A 1000 False, A 1000 False, B 1000 False, B 2000 False,
                      B 2000 False]
                     (Called, Called, store1)))
   \<and> fst (snd (race config0 aliceRefresh
                  [A 1000 False, A 1000 False, A 1000 False, B 1000 False, B 2000 False,
                   B 2000 False]
                  (Called, Called, store1)))
       = Returned (Inl (AuthenticationError ''Refresh token is invalid or revoked''))"
proof -
  obtain a b s' where
    r: "race config0 aliceRefresh
          [A 1000 False, A 1000 False, A 1000 False, B 1000 False, B 2000 False, B 2000 False]
          (Called, Called, store1) = (a, b, s')"
    by (cases "race config0 aliceRefresh
          [A 1000 False, A 1000 False, A 1000 False, B 1000 False, B 2000 False, B 2000 False]
          (Called, Called, store1)")
  from refreshTokens_store1 [of False] r [unfolded race_sequential] have a: "succeeded a"
    by (auto split: prod.splits)
  have "jwt_decode aliceRefresh = Some claims \<Longrightarrow> \<not> exp claims \<le> 1000 div 1000" for claims
    by (auto simp: sample_defs token_defs)
  with sequential_refresh_second_fails [OF r a] a show ?thesis
    unfolding r by auto
qed


section \<open>Revoking every session of a user\<close>

lemma revokeAllUserTokens_row:
  "Store.refreshToken s token = Some row \<Longrightarrow> userId row = uid \<Longrightarrow>
   revoked (revokeAllUserTokens s uid) token"
  by (auto simp: revokeAllUserTokens_def revoked_def)

lemma refreshToken_updateUser:
  "Store.refreshToken (updateUser s i f) = Store.refreshToken s"
  by (simp add: updateUser_def)

text \<open>A successful \<^verbatim>\<open>changePassword\<close> ends with \<^verbatim>\<open>revokeAllUserTokens\<close>.\<close>

lemma changePassword_InrD:
  assumes "changePassword bcrypt s uid data = (Inr u, s')"
  shows "\<exists>f. s' = revokeAllUserTokens (updateUser s uid f) uid"
  using assms
  by (auto simp: changePassword_def Let_def split: option.splits if_splits)

text \<open>
  Claim C8. After \<^verbatim>\<open>revokeAllUserTokens\<close> for a user, called directly or at the end of a
  successful \<^verbatim>\<open>changePassword\<close>, every refresh token that had a row of that user fails
  \<^verbatim>\<open>refreshTokens\<close>, directly afterwards or after any sequence of further requests, at any
  clock readings, and the store stays as it is: a token that still passes the signature
  verification (so one that has not expired) fails as invalid or revoked, any other with
  the error of the verification.
\<close>

theorem revokeAll_invalidates_sessions:
  assumes "Store.refreshToken s token = Some row" and "userId row = uid"
    and "s' = revokeAllUserTokens s uid \<or> changePassword bcrypt s uid data = (Inr (), s')"
  shows "refreshTokens config revokeThrows tv tc ts (serve bcrypt config requests s') token =
     (Inl (case verifyRefreshToken config tv token of
             Inl error \<Rightarrow> error
           | Inr decoded \<Rightarrow> AuthenticationError ''Refresh token is invalid or revoked''),
      serve bcrypt config requests s')"
proof -
  from assms(3) obtain s0 where s0: "s' = revokeAllUserTokens s0 uid"
    and r0: "Store.refreshToken s0 = Store.refreshToken s"
    using changePassword_InrD refreshToken_updateUser by fastforce
  from assms(1,2) r0 have "revoked s' token"
    using revokeAllUserTokens_row [of s0 token row uid] by (simp add: s0)
  then have "revoked (serve bcrypt config requests s') token" by (rule revoked_serve)
  then show ?thesis by (rule refreshTokens_revoked)
qed

text \<open>
  The sample token, valid and not revoked in the sample store, after a direct
  \<^verbatim>\<open>revokeAllUserTokens\<close>, after a change of the password, and after a login that follows
  the change of the password.
\<close>

theorem revokeAll_invalidates_sessions_witness:
  "isl (fst (refreshTokens config0 False 1000 1000 1000 store1 aliceRefresh)) = False
   \<and> fst (refreshTokens config0 False 1000 1000 1000 (revokeAllUserTokens store1 ''u1'') aliceRefresh)
       = Inl (AuthenticationError ''Refresh token is invalid or revoked'')
   \<and> fst (changePassword bcrypt0 store1 ''u1''
            \<lparr>currentPassword = ''wonderland'', newPassword = ''looking-glass''\<rparr>) = Inr ()
   \<and> fst (refreshTokens config0 False 1000 1000 1000
            (snd (changePassword bcrypt0 store1 ''u1''
                   \<lparr>currentPassword = ''wonderland'', newPassword = ''looking-glass''\<rparr>))
            aliceRefresh)
       = Inl (AuthenticationError ''Refresh token is invalid or revoked'')
   \<and> fst (refreshTokens config0 False 1000 1000 1000
            (serve bcrypt0 config0
               [Login \<lparr>LoginCredentials.email = ''alice@example.com'',
                        password = ''looking-glass''\<rparr> None None 1000 1000]
               (snd (changePassword bcrypt0 store1 ''u1''
                      \<lparr>currentPassword = ''wonderland'', newPassword = ''looking-glass''\<rparr>)))
            aliceRefresh)
       = Inl (AuthenticationError ''Refresh token is invalid or revoked'')"
proof -
  have row: "Store.refreshToken store1 aliceRefresh = Some aliceRow" "userId aliceRow = ''u1''"
    by (simp_all add: store1_def aliceRow_def)
  have v: "verifyRefreshToken config0 1000 aliceRefresh = Inr (the (jwt_decode aliceRefresh))"
    by (simp add: sample_defs token_defs)
  obtain s' where c: "changePassword bcrypt0 store1 ''u1''
            \<lparr>currentPassword = ''wonderland'', newPassword = ''looking-glass''\<rparr> = (Inr (), s')"
    by (simp add: changePassword_def findUserById_def store1_def alice_def bcrypt0_def Let_def)
  have ok: "isl (fst (refreshTokens config0 False 1000 1000 1000 store1 aliceRefresh)) = False"
    using refreshTokens_store1 [of False] by auto
  from revokeAll_invalidates_sessions [OF row, of "revokeAllUserTokens store1 ''u1''"
      bcrypt0 "\<lparr>currentPassword = ''wonderland'', newPassword = ''looking-glass''\<rparr>"
      config0 False 1000 1000 1000 "[]"]
    revokeAll_invalidates_sessions [OF row, of s' bcrypt0
      "\<lparr>currentPassword = ''wonderland'', newPassword = ''looking-glass''\<rparr>"
      config0 False 1000 1000 1000 "[]"]
    revokeAll_invalidates_sessions [OF row, of s' bcrypt0
      "\<lparr>currentPassword = ''wonderland'', newPassword = ''looking-glass''\<rparr>"
      config0 False 1000 1000 1000
      "[Login \<lparr>LoginCredentials.email = ''alice@example.com'',
                password = ''looking-glass''\<rparr> None None 1000 1000]"]
  show ?thesis
    unfolding c by (simp add: v c ok del: serve.simps add: serve.simps(1))
qed

text \<open>
  Claim C9. Every row that \<^verbatim>\<open>generateTokenPair\<close> creates is a new row under the refresh
  token of the pair it returns, and its \<^verbatim>\<open>expiresAt\<close> is the \<^verbatim>\<open>exp\<close> claim read from that
  token, converted from seconds to milliseconds.
\<close>

theorem stored_expiry_is_signed_expiry:
  assumes "generateTokenPair config now s uid mail rs ps ua ip = (Inr tokens, s')"
  shows "\<exists>claims row. jwt_decode (JWTTokens.refreshToken tokens) = Some claims
           \<and> Store.refreshToken s (JWTTokens.refreshToken tokens) = None
           \<and> Store.refreshToken s' (JWTTokens.refreshToken tokens) = Some row
           \<and> expiresAt row = exp claims * 1000"
  using assms
  by (auto simp: generateTokenPair_def storeRefreshToken_def Let_def split: option.splits)

theorem stored_expiry_is_signed_expiry_witness:
  "fst (generateTokenPair config0 0 store0 ''u1'' ''alice@example.com'' [''editor'']
          [''posts:read'', ''posts:write'', ''users:read''] (Some ''curl'') None)
     = Inr \<lparr>accessToken = aliceAccess, refreshToken = aliceRefresh\<rparr>
   \<and> map_option exp (jwt_decode aliceRefresh) = Some 604800
   \<and> map_option expiresAt
        (Store.refreshToken
           (snd (generateTokenPair config0 0 store0 ''u1'' ''alice@example.com'' [''editor'']
                   [''posts:read'', ''posts:write'', ''users:read''] (Some ''curl'') None))
           aliceRefresh)
       = Some 604800000"
proof -
  obtain s' where g: "generateTokenPair config0 0 store0 ''u1'' ''alice@example.com'' [''editor'']
          [''posts:read'', ''posts:write'', ''users:read''] (Some ''curl'') None
     = (Inr \<lparr>accessToken = aliceAccess, refreshToken = aliceRefresh\<rparr>, s')"
    by (simp add: sample_defs token_defs Let_def)
  have e: "map_option exp (jwt_decode aliceRefresh) = Some 604800"
    by (simp add: sample_defs token_defs)
  from stored_expiry_is_signed_expiry [OF g] e show ?thesis
    by (auto simp: g)
qed


section \<open>Login\<close>

lemma truthy_Some: "truthy p = Some h \<longleftrightarrow> p = Some h \<and> h \<noteq> []"
  by (cases p) auto

text \<open>When \<^verbatim>\<open>generateTokenPair\<close> fails, the error is the one of the store.\<close>

lemma generateTokenPair_InlD:
  assumes "generateTokenPair config now s uid mail rs ps ua ip = (Inl error, s')"
  shows "\<exists>m. error = PrismaClientKnownRequestError m"
  using assms
  by (auto simp: generateTokenPair_def storeRefreshToken_def Let_def generateRefreshToken_def
        jwt_sign_def split: option.splits)

text \<open>
  Claim C5. A login attempt fails with one and the same error, and leaves the store as it
  is, when no user has the lower-cased email, when the user has no password hash, and when
  the password does not match the hash; whether the account is active or verified plays no
  part in that. The disabled-account error and the unverified-email error arise only for
  a user whose password matched.
\<close>

theorem login_credential_failures_are_generic:
  "(findUserByEmail s (toLowerCase (LoginCredentials.email credentials)) = None
      \<or> (\<exists>u. findUserByEmail s (toLowerCase (LoginCredentials.email credentials)) = Some u
             \<and> (User.password u = None \<or> User.password u = Some []
                 \<or> (\<exists>hashed. User.password u = Some hashed
                       \<and> \<not> compare bcrypt (LoginCredentials.password credentials) hashed)))
    \<longrightarrow> login bcrypt config tu ts s credentials ua ip =
          (Inl (AuthenticationError ''Invalid email or password''), s))
   \<and> (fst (login bcrypt config tu ts s credentials ua ip) =
          Inl (AuthenticationError ''Your account has been disabled'')
       \<longrightarrow> (\<exists>u hashed. findUserByEmail s (toLowerCase (LoginCredentials.email credentials)) = Some u
               \<and> User.password u = Some hashed
               \<and> compare bcrypt (LoginCredentials.password credentials) hashed
               \<and> \<not> isActive u))
   \<and> (fst (login bcrypt config tu ts s credentials ua ip) =
          Inl (AuthenticationError ''Please verify your email address before signing in'')
       \<longrightarrow> (\<exists>u hashed. findUserByEmail s (toLowerCase (LoginCredentials.email credentials)) = Some u
               \<and> User.password u = Some hashed
               \<and> compare bcrypt (LoginCredentials.password credentials) hashed
               \<and> isActive u \<and> \<not> emailVerified u))"
proof (intro conjI impI)
  assume "findUserByEmail s (toLowerCase (LoginCredentials.email credentials)) = None
      \<or> (\<exists>u. findUserByEmail s (toLowerCase (LoginCredentials.email credentials)) = Some u
             \<and> (User.password u = None \<or> User.password u = Some []
                 \<or> (\<exists>hashed. User.password u = Some hashed
                       \<and> \<not> compare bcrypt (LoginCredentials.password credentials) hashed)))"
  then show "login bcrypt config tu ts s credentials ua ip =
          (Inl (AuthenticationError ''Invalid email or password''), s)"
    by (auto simp: login_def truthy_Some split: option.splits)
next
  assume "fst (login bcrypt config tu ts s credentials ua ip) =
          Inl (AuthenticationError ''Your account has been disabled'')"
  then show "\<exists>u hashed. findUserByEmail s (toLowerCase (LoginCredentials.email credentials)) = Some u
               \<and> User.password u = Some hashed
               \<and> compare bcrypt (LoginCredentials.password credentials) hashed
               \<and> \<not> isActive u"
    by (cases "findUserByEmail s (toLowerCase (LoginCredentials.email credentials))")
       (auto simp: login_def Let_def truthy_Some dest: generateTokenPair_InlD
          split: option.splits if_splits sum.splits prod.splits)
next
  assume "fst (login bcrypt config tu ts s credentials ua ip) =
          Inl (AuthenticationError ''Please verify your email address before signing in'')"
  then show "\<exists>u hashed. findUserByEmail s (toLowerCase (LoginCredentials.email credentials)) = Some u
               \<and> User.password u = Some hashed
               \<and> compare bcrypt (LoginCredentials.password credentials) hashed
               \<and> isActive u \<and> \<not> emailVerified u"
    by (cases "findUserByEmail s (toLowerCase (LoginCredentials.email credentials))")
       (auto simp: login_def Let_def truthy_Some dest: generateTokenPair_InlD
          split: option.splits if_splits sum.splits prod.splits)
qed

text \<open>
  Three attempts on a store that holds the sample user, disabled and unverified, and an
  account without a password hash: an unknown email, the account without a hash, and a
  wrong password for the sample user (the email written with capitals). A fourth attempt,
  with the right password, is the one that is told the account is disabled.
\<close>

theorem login_credential_failures_are_generic_witness:
  "fst (login bcrypt0 config0 0 0 store2
          \<lparr>LoginCredentials.email = ''nobody@example.com'', password = ''wonderland''\<rparr> None None)
     = Inl (AuthenticationError ''Invalid email or password'')
   \<and> fst (login bcrypt0 config0 0 0 store2
          \<lparr>LoginCredentials.email = ''bob@example.com'', password = ''wonderland''\<rparr> None None)
     = Inl (AuthenticationError ''Invalid email or password'')
   \<and> fst (login bcrypt0 config0 0 0 store2
          \<lparr>LoginCredentials.email = ''Alice@Example.com'', password = ''looking-glass''\<rparr> None None)
     = Inl (AuthenticationError ''Invalid email or password'')
   \<and> fst (login bcrypt0 config0 0 0 store2
          \<lparr>LoginCredentials.email = ''Alice@Example.com'', password = ''wonderland''\<rparr> None None)
     = Inl (AuthenticationError ''Your account has been disabled'')"
proof -
  have f: "findUserByEmail store2 (toLowerCase ''nobody@example.com'') = None"
    "findUserByEmail store2 (toLowerCase ''bob@example.com'') = Some bob"
    "findUserByEmail store2 (toLowerCase ''Alice@Example.com'')
       = Some (alice\<lparr>isActive := False, emailVerified := False\<rparr>)"
    by (simp_all add: findUserByEmail_def store2_def alice_def bob_def toLowerCase_def
          toLowerCase_char_def)
  have d: "fst (login bcrypt0 config0 0 0 store2
          \<lparr>LoginCredentials.email = ''Alice@Example.com'', password = ''wonderland''\<rparr> None None)
     = Inl (AuthenticationError ''Your account has been disabled'')"
    by (simp add: login_def f alice_def bcrypt0_def)
  have c: "\<not> compare bcrypt0 ''looking-glass'' ''$2b$12$wonderland''"
    by (simp add: bcrypt0_def)
  have 1: "fst (login bcrypt0 config0 0 0 store2
          \<lparr>LoginCredentials.email = ''nobody@example.com'', password = ''wonderland''\<rparr> None None)
     = Inl (AuthenticationError ''Invalid email or password'')"
    using login_credential_failures_are_generic [of store2
      "\<lparr>LoginCredentials.email = ''nobody@example.com'', password = ''wonderland''\<rparr>"
      bcrypt0 config0 0 0 None None]
    by (simp add: f)
  have 2: "fst (login bcrypt0 config0 0 0 store2
          \<lparr>LoginCredentials.email = ''bob@example.com'', password = ''wonderland''\<rparr> None None)
     = Inl (AuthenticationError ''Invalid email or password'')"
    using login_credential_failures_are_generic [of store2
      "\<lparr>LoginCredentials.email = ''bob@example.com'', password = ''wonderland''\<rparr>"
      bcrypt0 config0 0 0 None None]
    by (simp add: f bob_def)
  have 3: "fst (login bcrypt0 config0 0 0 store2
          \<lparr>LoginCredentials.email = ''Alice@Example.com'', password = ''looking-glass''\<rparr> None None)
     = Inl (AuthenticationError ''Invalid email or password'')"
    using login_credential_failures_are_generic [of store2
      "\<lparr>LoginCredentials.email = ''Alice@Example.com'', password = ''looking-glass''\<rparr>"
      bcrypt0 config0 0 0 None None] c
    by (simp add: f alice_def)
  from 1 2 3 d show ?thesis by simp
qed


section \<open>Effective permissions\<close>

lemma set_newSet: "set (newSet acc xs) = set acc \<union> set xs"
  by (induction xs arbitrary: acc) auto

lemma distinct_newSet: "distinct acc \<Longrightarrow> distinct (newSet acc xs)"
  by (induction xs arbitrary: acc) auto

text \<open>The list the code computes has no duplicates and holds the set of the specification.\<close>

lemma allPermissions_spec:
  "distinct (allPermissions u) \<and> set (allPermissions u) = effective_permissions_spec u"
  by (auto simp: allPermissions_def distinct_newSet set_newSet rolePermissions_def
        userPermissions_def flatMap_def effective_permissions_spec_def)

text \<open>Both tokens of a pair carry the permissions \<^verbatim>\<open>generateTokenPair\<close> was given.\<close>

lemma generateTokenPair_permissions:
  assumes "generateTokenPair config now s uid mail rs ps ua ip = (Inr tokens, s')"
  shows "\<exists>a r. jwt_decode (accessToken tokens) = Some a
           \<and> jwt_decode (JWTTokens.refreshToken tokens) = Some r
           \<and> TokenPayload.permissions a = ps \<and> TokenPayload.permissions r = ps"
  using generateTokenPair_InrD [OF assms]
  by (simp add: generateAccessToken_def generateRefreshToken_def jwt_sign_def
        TokenPayload.defs Claims.defs)

lemma login_permissions:
  assumes "login bcrypt config tu ts s credentials ua ip = (Inr (u, tokens), s')"
  shows "\<exists>a r. jwt_decode (accessToken tokens) = Some a
           \<and> jwt_decode (JWTTokens.refreshToken tokens) = Some r
           \<and> TokenPayload.permissions a = allPermissions u
           \<and> TokenPayload.permissions r = allPermissions u"
proof -
  from assms obtain s1 where
    "generateTokenPair config ts s1 (User.id u) (User.email u) (map Role.name (User.roles u))
       (allPermissions u) ua ip = (Inr tokens, s')"
    by (auto simp: login_def Let_def split: option.splits if_splits sum.splits prod.splits)
  then show ?thesis by (rule generateTokenPair_permissions)
qed

lemma refreshTokens_permissions:
  assumes "refreshTokens config revokeThrows tv tc ts s token = (Inr tokens, s')"
  shows "\<exists>row u a r. Store.refreshToken s token = Some row
           \<and> findUserById s (userId row) = Some u
           \<and> jwt_decode (accessToken tokens) = Some a
           \<and> jwt_decode (JWTTokens.refreshToken tokens) = Some r
           \<and> TokenPayload.permissions a = allPermissions u
           \<and> TokenPayload.permissions r = allPermissions u"
proof -
  from assms obtain row u s1 where r: "Store.refreshToken s token = Some row"
    and u: "findUserById s (userId row) = Some u"
    and g: "generateTokenPair config ts s (User.id u) (User.email u) (map Role.name (User.roles u))
       (allPermissions u) (userAgent row) (ipAddress row) = (Inr tokens, s1)"
    by (auto simp: refreshTokens_def split: option.splits if_splits sum.splits prod.splits)
  from generateTokenPair_permissions [OF g] r u show ?thesis by auto
qed

lemma hasPermission_iff:
  "hasPermission required (Some u) = Inr ()
     \<longleftrightarrow> (\<exists>p \<in> set required. p \<in> effective_permissions_spec u)"
  using allPermissions_spec [of u]
  by (auto simp: hasPermission_def list_ex_iff)

text \<open>
  Claim C7. The effective permissions are the de-duplicated union of the permission names
  of the user's roles and of the user's direct grants, at each of the three places that
  compute them. The permissions claim that a successful login writes into both tokens is a
  list without duplicates whose elements are that union for the user who logged in; so is
  the claim that a successful refresh writes into both new tokens, for the user who owns
  the row; and the permission middleware admits a user exactly when one of the required
  permissions is in that union.
\<close>

theorem effective_permissions_are_the_union:
  "(login bcrypt config tu ts s credentials ua ip = (Inr (u, tokens), s') \<longrightarrow>
      (\<exists>a r. jwt_decode (accessToken tokens) = Some a
           \<and> jwt_decode (JWTTokens.refreshToken tokens) = Some r
           \<and> TokenPayload.permissions r = TokenPayload.permissions a
           \<and> distinct (TokenPayload.permissions a)
           \<and> set (TokenPayload.permissions a) = effective_permissions_spec u))
   \<and> (refreshTokens config revokeThrows tv tc ts s token = (Inr tokens, s') \<longrightarrow>
      (\<exists>row owner a r. Store.refreshToken s token = Some row
           \<and> findUserById s (userId row) = Some owner
           \<and> jwt_decode (accessToken tokens) = Some a
           \<and> jwt_decode (JWTTokens.refreshToken tokens) = Some r
           \<and> TokenPayload.permissions r = TokenPayload.permissions a
           \<and> distinct (TokenPayload.permissions a)
           \<and> set (TokenPayload.permissions a) = effective_permissions_spec owner))
   \<and> (hasPermission required (Some u) = Inr ()
         \<longleftrightarrow> (\<exists>p \<in> set required. p \<in> effective_permissions_spec u))"
proof (intro conjI impI)
  assume "login bcrypt config tu ts s credentials ua ip = (Inr (u, tokens), s')"
  from login_permissions [OF this] allPermissions_spec [of u]
  show "\<exists>a r. jwt_decode (accessToken tokens) = Some a
           \<and> jwt_decode (JWTTokens.refreshToken tokens) = Some r
           \<and> TokenPayload.permissions r = TokenPayload.permissions a
           \<and> distinct (TokenPayload.permissions a)
           \<and> set (TokenPayload.permissions a) = effective_permissions_spec u"
    by auto
next
  assume "refreshTokens config revokeThrows tv tc ts s token = (Inr tokens, s')"
  from refreshTokens_permissions [OF this] obtain row owner a r where
    "Store.refreshToken s token = Some row" "findUserById s (userId row) = Some owner"
    "jwt_decode (accessToken tokens) = Some a" "jwt_decode (JWTTokens.refreshToken tokens) = Some r"
    "TokenPayload.permissions a = allPermissions owner"
    "TokenPayload.permissions r = allPermissions owner"
    by blast
  with allPermissions_spec [of owner]
  show "\<exists>row owner a r. Store.refreshToken s token = Some row
           \<and> findUserById s (userId row) = Some owner
           \<and> jwt_decode (accessToken tokens) = Some a
           \<and> jwt_decode (JWTTokens.refreshToken tokens) = Some r
           \<and> TokenPayload.permissions r = TokenPayload.permissions a
           \<and> distinct (TokenPayload.permissions a)
           \<and> set (TokenPayload.permissions a) = effective_permissions_spec owner"
    by auto
next
  show "hasPermission required (Some u) = Inr ()
         \<longleftrightarrow> (\<exists>p \<in> set required. p \<in> effective_permissions_spec u)"
    by (rule hasPermission_iff)
qed

text \<open>
  The sample user has \<^verbatim>\<open>posts:write\<close> through the role and directly. A login and a refresh
  both write the three names once each; the middleware admits the user for a permission of
  the role and refuses one the user does not have.
\<close>

lemma effective_permissions_alice:
  "effective_permissions_spec alice = {''posts:read'', ''posts:write'', ''users:read''}"
  by (auto simp: effective_permissions_spec_def alice_def editor_def)

lemma login_alice:
  "\<exists>tokens s'. login bcrypt0 config0 1000 1000 store1
      \<lparr>LoginCredentials.email = ''Alice@Example.com'', password = ''wonderland''\<rparr> None None
    = (Inr (alice, tokens), s')"
  by (simp add: login_def findUserByEmail_def toLowerCase_def toLowerCase_char_def
        sample_defs token_defs Let_def updateUser_def
        allPermissions_def rolePermissions_def userPermissions_def flatMap_def)

theorem effective_permissions_are_the_union_witness:
  "(\<exists>a. map_option TokenPayload.permissions
           (jwt_decode (accessToken (snd (projr (fst (login bcrypt0 config0 1000 1000 store1
              \<lparr>LoginCredentials.email = ''Alice@Example.com'', password = ''wonderland''\<rparr>
              None None)))))) = Some a
        \<and> distinct a \<and> set a = {''posts:read'', ''posts:write'', ''users:read''})
   \<and> (\<exists>a. map_option TokenPayload.permissions
           (jwt_decode (accessToken (projr (fst (refreshTokens config0 False 1000 1000 1000 store1
              aliceRefresh))))) = Some a
        \<and> distinct a \<and> set a = {''posts:read'', ''posts:write'', ''users:read''})
   \<and> hasPermission [''posts:delete'', ''posts:read''] (Some alice) = Inr ()
   \<and> hasPermission [''posts:delete''] (Some alice)
       = Inl (AuthorizationError ''Access denied. Required permissions: posts:delete'')"
proof -
  obtain tokens s' where l: "login bcrypt0 config0 1000 1000 store1
      \<lparr>LoginCredentials.email = ''Alice@Example.com'', password = ''wonderland''\<rparr> None None
    = (Inr (alice, tokens), s')"
    using login_alice by blast
  obtain tokens' s'' where
    r: "refreshTokens config0 False 1000 1000 1000 store1 aliceRefresh = (Inr tokens', s'')"
    using refreshTokens_store1 by blast
  have o: "Store.refreshToken store1 aliceRefresh = Some row \<Longrightarrow>
           findUserById store1 (userId row) = Some owner \<Longrightarrow> owner = alice" for row owner
    by (auto simp: store1_def aliceRow_def findUserById_def alice_def)
  note t1 = effective_permissions_are_the_union [of bcrypt0 config0 1000 1000 store1
      "\<lparr>LoginCredentials.email = ''Alice@Example.com'', password = ''wonderland''\<rparr>"
      None None alice tokens s' False 1000 1000 aliceRefresh "[''posts:delete'', ''posts:read'']"]
  note t2 = effective_permissions_are_the_union [of bcrypt0 config0 1000 1000 store1
      "\<lparr>LoginCredentials.email = ''Alice@Example.com'', password = ''wonderland''\<rparr>"
      None None alice tokens' s'' False 1000 1000 aliceRefresh "[''posts:delete'']"]
  have 1: "\<exists>a. map_option TokenPayload.permissions (jwt_decode (accessToken tokens)) = Some a
        \<and> distinct a \<and> set a = {''posts:read'', ''posts:write'', ''users:read''}"
    using t1 l by (auto simp: effective_permissions_alice)
  have 2: "\<exists>a. map_option TokenPayload.permissions (jwt_decode (accessToken tokens')) = Some a
        \<and> distinct a \<and> set a = {''posts:read'', ''posts:write'', ''users:read''}"
  proof -
    from t2 r obtain row owner a where
      "Store.refreshToken store1 aliceRefresh = Some row"
      "findUserById store1 (userId row) = Some owner"
      "jwt_decode (accessToken tokens') = Some a"
      "distinct (TokenPayload.permissions a)"
      "set (TokenPayload.permissions a) = effective_permissions_spec owner"
      by auto
    moreover from this have "owner = alice" using o by blast
    ultimately show ?thesis by (auto simp: effective_permissions_alice)
  qed
  have 3: "hasPermission [''posts:delete'', ''posts:read''] (Some alice) = Inr ()"
    using t1 by (simp add: effective_permissions_alice)
  have 4: "hasPermission [''posts:delete''] (Some alice)
       = Inl (AuthorizationError ''Access denied. Required permissions: posts:delete'')"
  proof -
    have "hasPermission [''posts:delete''] (Some alice) \<noteq> Inr ()"
      using t2 by (simp add: effective_permissions_alice)
    then show ?thesis by (auto simp: hasPermission_def split: if_splits)
  qed
  from 1 2 3 4 show ?thesis by (simp add: l r)
qed


section \<open>The blacklist check\<close>

text \<open>
  Claim C10. The blacklist check fails open. When the lookup in the blacklist table throws,
  \<^verbatim>\<open>isTokenBlacklisted\<close> answers \<^verbatim>\<open>false\<close>, and \<^verbatim>\<open>authenticate\<close> answers every request as
  it would with an empty blacklist, so the failure of the lookup rejects no request by
  itself. In particular a token that is on the blacklist and that \<^verbatim>\<open>authenticate\<close> rejects
  while the lookup works, is admitted while the lookup throws, provided it verifies and
  its user is active.
\<close>

theorem blacklist_check_fails_open:
  "isTokenBlacklisted True now s token = False
   \<and> authenticate True config tb tv s authHeader =
       authenticate False config tb tv (s\<lparr>blacklistedToken := Map.empty\<rparr>) authHeader
   \<and> (blacklistedToken s token = Some e \<and> tb < e
        \<and> verifyAccessToken config tv token = Inr payload
        \<and> findUserById s (TokenPayload.userId payload) = Some u \<and> isActive u
      \<longrightarrow> authenticate False config tb tv s (Some (Bearer token)) =
            Inl (AuthenticationError ''Token is invalid'')
          \<and> authenticate True config tb tv s (Some (Bearer token)) = Inr u)"
proof (intro conjI impI)
  show "isTokenBlacklisted True now s token = False"
    by (simp add: isTokenBlacklisted_def)
next
  show "authenticate True config tb tv s authHeader =
       authenticate False config tb tv (s\<lparr>blacklistedToken := Map.empty\<rparr>) authHeader"
    by (simp add: authenticate_def isTokenBlacklisted_def findUserById_def
          split: option.splits sum.splits)
next
  assume a: "blacklistedToken s token = Some e \<and> tb < e
        \<and> verifyAccessToken config tv token = Inr payload
        \<and> findUserById s (TokenPayload.userId payload) = Some u \<and> isActive u"
  then have "token \<noteq> Malformed []"
    using verifyAccessToken_InrD [of config tv token payload] by auto
  with a show "authenticate False config tb tv s (Some (Bearer token)) =
            Inl (AuthenticationError ''Token is invalid'')"
    by (simp add: authenticate_def isTokenBlacklisted_def)
  from a \<open>token \<noteq> Malformed []\<close>
  show "authenticate True config tb tv s (Some (Bearer token)) = Inr u"
    by (simp add: authenticate_def isTokenBlacklisted_def)
qed

text \<open>
  The sample access token is blacklisted, as a logout does, and presented one second
  later.
\<close>

theorem blacklist_check_fails_open_witness:
  "blacklistedToken (blacklistAccessToken store1 aliceAccess) aliceAccess = Some 900000
   \<and> authenticate False config0 1000 1000 (blacklistAccessToken store1 aliceAccess)
        (Some (Bearer aliceAccess)) = Inl (AuthenticationError ''Token is invalid'')
   \<and> authenticate True config0 1000 1000 (blacklistAccessToken store1 aliceAccess)
        (Some (Bearer aliceAccess)) = Inr alice"
proof -
  have b: "blacklistedToken (blacklistAccessToken store1 aliceAccess) aliceAccess = Some 900000"
    by (simp add: blacklistAccessToken_def sample_defs token_defs)
  have v: "verifyAccessToken config0 1000 aliceAccess = Inr (the (jwt_decode aliceAccess))"
    by (simp add: sample_defs token_defs)
  have u: "findUserById (blacklistAccessToken store1 aliceAccess)
             (TokenPayload.userId (the (jwt_decode aliceAccess))) = Some alice"
    by (simp add: blacklistAccessToken_def findUserById_def sample_defs token_defs)
  have i: "isActive alice" by (simp add: alice_def)
  have "900000 > (1000::int)" by simp
  with blacklist_check_fails_open [of 1000 "blacklistAccessToken store1 aliceAccess" aliceAccess
      config0 1000 1000 "Some (Bearer aliceAccess)" 900000 "the (jwt_decode aliceAccess)" alice]
    b v u i
  have "authenticate False config0 1000 1000 (blacklistAccessToken store1 aliceAccess)
          (Some (Bearer aliceAccess)) = Inl (AuthenticationError ''Token is invalid'')
      \<and> authenticate True config0 1000 1000 (blacklistAccessToken store1 aliceAccess)
          (Some (Bearer aliceAccess)) = Inr alice"
    by blast
  with b show ?thesis by simp
qed

end
